theory Spec2Isabelle
  imports Main "HOL-Library.Char_ord" "HOL-Library.List_Lexorder"
begin

section \<open>JavaScript strings and values\<close>

text \<open>
  A JavaScript string is modelled as a \<^typ>\<open>string\<close>: a list of code units below 256.
  The whitespace that \<^verbatim>\<open>String.prototype.trim\<close> strips and the line terminators that
  the regular-expression dot refuses are the ones among these code units.
\<close>

text \<open>
  The value of a command-line option after \<^verbatim>\<open>parseArguments\<close>: \<^verbatim>\<open>null\<close> when the
  option was not given, \<^verbatim>\<open>undefined\<close> when its flag was the last argument (the value
  is read with \<^verbatim>\<open>args[++i]\<close>), and the argument string otherwise.
\<close>

datatype optval = OptNull | OptUndefined | OptStr string

text \<open>The string of a value that passed the truthiness test.\<close>

definition str_of :: "optval \<Rightarrow> string" where
  "str_of v = (case v of OptStr s \<Rightarrow> s | other \<Rightarrow> [])"

definition nl :: char where
  "nl = CHR 0x0A"

definition tab :: char where
  "tab = CHR 0x09"

definition truthy :: "optval \<Rightarrow> bool" where
  "truthy v = (case v of OptStr s \<Rightarrow> s \<noteq> [] | other \<Rightarrow> False)"

text \<open>\<^verbatim>\<open>a || b\<close> on two values that are strings, null or undefined.\<close>

definition js_or :: "optval \<Rightarrow> optval \<Rightarrow> optval" where
  "js_or a b = (if truthy a then a else b)"

text \<open>The string a template literal interpolates for \<^verbatim>\<open>${v || "latest"}\<close>.\<close>

definition or_latest :: "optval \<Rightarrow> string" where
  "or_latest v = (if truthy v then str_of v else ''latest'')"

definition is_space :: "char \<Rightarrow> bool" where
  "is_space c = (c \<in> set [CHR 0x09, CHR 0x0A, CHR 0x0B, CHR 0x0C, CHR 0x0D, CHR 0x20, CHR 0xA0])"

definition js_trim :: "string \<Rightarrow> string" where
  "js_trim s = rev (dropWhile is_space (rev (dropWhile is_space s)))"

fun starts_with :: "string \<Rightarrow> string \<Rightarrow> bool" where
  "starts_with s [] = True"
| "starts_with [] (p # ps) = False"
| "starts_with (c # cs) (p # ps) = (c = p \<and> starts_with cs ps)"

text \<open>\<^verbatim>\<open>hay.includes(needle)\<close>: the needle occurs somewhere in the hay.\<close>

fun js_includes :: "string \<Rightarrow> string \<Rightarrow> bool" where
  "js_includes [] needle = (needle = [])"
| "js_includes (c # cs) needle = (starts_with (c # cs) needle \<or> js_includes cs needle)"

text \<open>\<^verbatim>\<open>s.split("\n")\<close>: the pieces between the separators, never an empty array.\<close>

fun split_on :: "char \<Rightarrow> string \<Rightarrow> string list" where
  "split_on sep [] = [[]]"
| "split_on sep (c # cs) =
     (if c = sep then [] # split_on sep cs
      else (case split_on sep cs of
              [] \<Rightarrow> [[c]]
            | piece # pieces \<Rightarrow> (c # piece) # pieces))"

section \<open>Command-line options and the target they select\<close>

record options =
  projectName :: optval
  version :: optval
  tag :: optval
  hash :: optval
  helpFlag :: bool

record target_info =
  targetType :: string
  target :: string

text \<open>
  \<^verbatim>\<open>determineTarget\<close> of the entry script. A field that passed the truthiness test is
  a non-empty string, which \<^term>\<open>str_of\<close> reads.
\<close>

definition determineTarget :: "options \<Rightarrow> target_info" where
  "determineTarget opts =
     (if truthy (hash opts) then \<lparr>targetType = ''hash'', target = str_of (hash opts)\<rparr>
      else if truthy (tag opts) then \<lparr>targetType = ''tag'', target = str_of (tag opts)\<rparr>
      else if truthy (version opts) \<and> version opts \<noteq> OptStr ''latest''
        then \<lparr>targetType = ''version'', target = str_of (version opts)\<rparr>
      else \<lparr>targetType = ''latest'', target = ''latest''\<rparr>)"

subsection \<open>The resolver as the specification words it\<close>

text \<open>
  The specification's resolver: list the selector's fields by priority (hash, tag, then
  a version other than "latest"), return the first one that is set and not empty with its
  kind, and the latest target when there is none.
\<close>

definition selector_fields :: "options \<Rightarrow> (string \<times> optval) list" where
  "selector_fields opts =
     [(''hash'', hash opts),
      (''tag'', tag opts),
      (''version'', if version opts = OptStr ''latest'' then OptNull else version opts)]"

fun first_set_field :: "(string \<times> optval) list \<Rightarrow> target_info" where
  "first_set_field [] = \<lparr>targetType = ''latest'', target = ''latest''\<rparr>"
| "first_set_field ((kind, OptNull) # rest) = first_set_field rest"
| "first_set_field ((kind, OptUndefined) # rest) = first_set_field rest"
| "first_set_field ((kind, OptStr v) # rest) =
     (if v = [] then first_set_field rest else \<lparr>targetType = kind, target = v\<rparr>)"

definition resolve_spec :: "options \<Rightarrow> target_info" where
  "resolve_spec opts = first_set_field (selector_fields opts)"

section \<open>The process: commands, console and environment\<close>

text \<open>
  Every command the code hands to \<^verbatim>\<open>execSync\<close>, with the parts the code interpolates
  as arguments, and \<^verbatim>\<open>process.chdir\<close> as one more effect on the environment.
\<close>

datatype cmd =
    LsRemoteTags string \<comment> \<open>\<^verbatim>\<open>git ls-remote --tags <url>\<close>\<close>
  | Clone string string \<comment> \<open>\<^verbatim>\<open>git clone <url> <path>\<close>\<close>
  | Chdir string \<comment> \<open>\<^verbatim>\<open>process.chdir(<path>)\<close>\<close>
  | CheckoutTarget string \<comment> \<open>\<^verbatim>\<open>git -c advice.detachedHead=false checkout <target>\<close>\<close>
  | SymbolicRefHead \<comment> \<open>\<^verbatim>\<open>git symbolic-ref --short HEAD 2>/dev/null || echo ""\<close>\<close>
  | SwitchCreate string \<comment> \<open>\<^verbatim>\<open>git switch -c <branch>\<close>\<close>
  | CheckoutCreate string \<comment> \<open>\<^verbatim>\<open>git checkout -b <branch>\<close>\<close>
  | RevParseHead \<comment> \<open>\<^verbatim>\<open>git rev-parse HEAD\<close>\<close>
  | Branch string string \<comment> \<open>\<^verbatim>\<open>git branch <branch> <commit>\<close>\<close>
  | BranchForce string string \<comment> \<open>\<^verbatim>\<open>git branch -f <branch> <commit>\<close>\<close>
  | Checkout string \<comment> \<open>\<^verbatim>\<open>git checkout <branch>\<close>\<close>
  | RemoteRename string string \<comment> \<open>\<^verbatim>\<open>git remote rename <old> <new>\<close>\<close>
  | RemoteRemove string \<comment> \<open>\<^verbatim>\<open>git remote remove <name>\<close>\<close>
  | RemoteAdd string string \<comment> \<open>\<^verbatim>\<open>git remote add <name> <url>\<close>\<close>
  | Config string string \<comment> \<open>\<^verbatim>\<open>git config <key> <value>\<close>\<close>
  | AddAll \<comment> \<open>\<^verbatim>\<open>git add .\<close>\<close>
  | Commit string \<comment> \<open>\<^verbatim>\<open>git commit -m "<message>"\<close>\<close>
  | Push string string \<comment> \<open>\<^verbatim>\<open>git push -u <remote> <branch>\<close>\<close>

datatype level = Log | Warn | Error

text \<open>
  The state a run threads through: the environment \<open>world\<close> the commands act on, the
  commands run so far, and the console. The pictographs that open the source's messages
  are left out of the console texts.
\<close>

record 'w proc =
  world :: 'w
  ran :: "cmd list"
  console :: "(level \<times> string) list"

text \<open>
  An environment answers a command in a world with the command's standard output, or
  with the message of the error \<^verbatim>\<open>execSync\<close> throws, and the world after it.
\<close>

type_synonym 'w env = "cmd \<Rightarrow> 'w \<Rightarrow> (string + string) \<times> 'w"

definition execSync :: "'w env \<Rightarrow> cmd \<Rightarrow> 'w proc \<Rightarrow> (string + string) \<times> 'w proc" where
  "execSync g c p =
     (case g c (world p) of (r, w') \<Rightarrow> (r, p\<lparr>world := w', ran := ran p @ [c]\<rparr>))"

definition say :: "level \<Rightarrow> string \<Rightarrow> 'w proc \<Rightarrow> 'w proc" where
  "say lvl msg p = p\<lparr>console := console p @ [(lvl, msg)]\<rparr>"

text \<open>A command whose output the code ignores: it succeeds or throws.\<close>

definition run :: "'w env \<Rightarrow> cmd \<Rightarrow> 'w proc \<Rightarrow> (string + unit) \<times> 'w proc" where
  "run g c p = (case execSync g c p of (Inl e, p') \<Rightarrow> (Inl e, p') | (Inr out, p') \<Rightarrow> (Inr (), p'))"

definition repoUrl :: string where
  "repoUrl = ''https://github.com/LebCit/aether-cms.git''"

section \<open>The remote existence check\<close>

definition is_line_terminator :: "char \<Rightarrow> bool" where
  "is_line_terminator c = (c = CHR 0x0A \<or> c = CHR 0x0D)"

definition tag_prefix :: string where
  "tag_prefix = ''refs/tags/''"

text \<open>
  \<^verbatim>\<open>line.match(/refs\/tags\/(.+)$/)?.[1]\<close>: the leftmost place where the prefix is
  followed, up to the end of the string, by at least one character and no line
  terminator; the capture is what follows the prefix.
\<close>

fun match_tag_ref :: "string \<Rightarrow> string option" where
  "match_tag_ref [] = None"
| "match_tag_ref (c # cs) =
     (let captured = drop (length tag_prefix) (c # cs)
      in if starts_with (c # cs) tag_prefix \<and> captured \<noteq> []
            \<and> \<not> list_ex is_line_terminator captured
         then Some captured
         else match_tag_ref cs)"

text \<open>The \<open>available\<close> array of \<^verbatim>\<open>validateTarget\<close>, from the text of the tag listing.\<close>

definition available_versions :: "string \<Rightarrow> string list" where
  "available_versions tags =
     rev (sort (filter (\<lambda>t. \<not> js_includes t ''^{}'')
       (List.map_filter match_tag_ref
         (filter (\<lambda>line. js_includes line tag_prefix) (split_on nl tags)))))"

definition digit_char :: "nat \<Rightarrow> char" where
  "digit_char d = char_of (48 + d)"

fun show_nat :: "nat \<Rightarrow> string" where
  "show_nat n = (if n < 10 then [digit_char n] else show_nat (n div 10) @ [digit_char (n mod 10)])"

declare show_nat.simps [simp del]

definition quote :: char where
  "quote = CHR 0x27"

definition validateTarget :: "'w env \<Rightarrow> string \<Rightarrow> string \<Rightarrow> 'w proc \<Rightarrow> bool \<times> 'w proc" where
  "validateTarget g tgt type p =
     (if type = ''hash'' \<or> tgt = ''latest'' then (True, p)
      else (case execSync g (LsRemoteTags repoUrl) p of
          (Inl msg, p1) \<Rightarrow> (True, say Warn (''Could not validate target: '' @ msg) p1)
        | (Inr tags, p1) \<Rightarrow>
            if \<not> js_includes tags (tag_prefix @ tgt) then
              (let p2 = say Error (''Version/tag '' @ [quote] @ tgt @ [quote] @ '' not found'') p1;
                   available = available_versions tags;
                   p3 = (if length available > 0 then
                           (let q1 = say Log (nl # ''Available versions:'') p2;
                                q2 = foldl (\<lambda>q v. say Log (''  '' @ v) q) q1 (take 10 available)
                            in if length available > 10
                               then say Log (''  ... and '' @ show_nat (length available - 10) @ '' more'') q2
                               else q2)
                         else p2)
               in (False, p3))
            else (True, p1)))"

section \<open>Branch normalisation\<close>

text \<open>
  The third strategy of \<^verbatim>\<open>createMainBranchFromCurrent\<close>: read the current revision,
  create \<open>main\<close> there, check it out. A command that throws ends it.
\<close>

definition manual_branch :: "'w env \<Rightarrow> 'w proc \<Rightarrow> (string + unit) \<times> 'w proc" where
  "manual_branch g p =
     (case execSync g RevParseHead p of
        (Inl e, p1) \<Rightarrow> (Inl e, p1)
      | (Inr out, p1) \<Rightarrow>
          (case run g (Branch ''main'' (js_trim out)) p1 of
             (Inl e, p2) \<Rightarrow> (Inl e, p2)
           | (Inr u, p2) \<Rightarrow> run g (Checkout ''main'') p2))"

definition strategies :: "'w env \<Rightarrow> ('w proc \<Rightarrow> (string + unit) \<times> 'w proc) list" where
  "strategies g =
     [run g (SwitchCreate ''main''), run g (CheckoutCreate ''main''), manual_branch g]"

text \<open>
  The loop over the strategies: return at the first one that does not throw; an error
  is dropped unless the strategy was the last of the array, whose error is thrown on.
\<close>

fun try_each ::
  "('w proc \<Rightarrow> (string + unit) \<times> 'w proc) list \<Rightarrow> 'w proc \<Rightarrow> (string + unit) \<times> 'w proc" where
  "try_each [] p = (Inr (), p)"
| "try_each (strategy # rest) p =
     (case strategy p of
        (Inr u, p') \<Rightarrow> (Inr (), p')
      | (Inl e, p') \<Rightarrow> (case rest of [] \<Rightarrow> (Inl e, p') | s # ss \<Rightarrow> try_each rest p'))"

definition createMainBranchFromCurrent :: "'w env \<Rightarrow> 'w proc \<Rightarrow> (string + unit) \<times> 'w proc" where
  "createMainBranchFromCurrent g p = try_each (strategies g) p"

text \<open>The body of the \<^verbatim>\<open>try\<close> block of \<^verbatim>\<open>ensureMainBranchFromCurrentState\<close>.\<close>

definition ensureMain_try ::
  "'w env \<Rightarrow> optval \<Rightarrow> string \<Rightarrow> 'w proc \<Rightarrow> (string + unit) \<times> 'w proc" where
  "ensureMain_try g tgt kind p =
     (case execSync g SymbolicRefHead p of
        (Inl e, p1) \<Rightarrow> (Inl e, p1)
      | (Inr out, p1) \<Rightarrow>
          (let currentBranch = js_trim out;
               done = (\<lambda>q. (Inr (), say Log ''Main branch setup complete'' q))
           in if currentBranch = [] then
                (case createMainBranchFromCurrent g
                        (say Log (''Creating main branch from current state (''
                                    @ or_latest tgt @ '')...'') p1) of
                   (Inl e, p2) \<Rightarrow> (Inl e, p2)
                 | (Inr u, p2) \<Rightarrow> done p2)
              else if currentBranch \<noteq> ''main'' then
                (case run g (CheckoutCreate ''main'')
                        (say Log (''Creating main branch from '' @ kind @ '' ''
                                    @ or_latest tgt @ ''...'') p1) of
                   (Inr u, p2) \<Rightarrow> done p2
                 | (Inl e0, p2) \<Rightarrow>
                     (case execSync g RevParseHead p2 of
                        (Inl e, p3) \<Rightarrow> (Inl e, p3)
                      | (Inr rev_out, p3) \<Rightarrow>
                          (case run g (BranchForce ''main'' (js_trim rev_out)) p3 of
                             (Inl e, p4) \<Rightarrow> (Inl e, p4)
                           | (Inr u, p4) \<Rightarrow>
                               (case run g (Checkout ''main'') p4 of
                                  (Inl e, p5) \<Rightarrow> (Inl e, p5)
                                | (Inr u, p5) \<Rightarrow> done p5))))
              else done p1))"

text \<open>The whole function: the \<^verbatim>\<open>catch\<close> turns any error into two console lines.\<close>

definition ensureMainBranchFromCurrentState ::
  "'w env \<Rightarrow> optval \<Rightarrow> string \<Rightarrow> 'w proc \<Rightarrow> 'w proc" where
  "ensureMainBranchFromCurrentState g tgt kind p =
     (case ensureMain_try g tgt kind p of
        (Inr u, p') \<Rightarrow> p'
      | (Inl e, p') \<Rightarrow>
          say Log ''Continuing with current git state...''
            (say Warn (''Branch setup warning: '' @ e) p'))"

section \<open>Acquisition\<close>

definition cloneRepository_try ::
  "'w env \<Rightarrow> string \<Rightarrow> options \<Rightarrow> 'w proc \<Rightarrow> (string + unit) \<times> 'w proc" where
  "cloneRepository_try g targetPath opts p =
     (case run g (Clone repoUrl targetPath) (say Log ''Cloning Aether CMS repository...'' p) of
        (Inl e, p1) \<Rightarrow> (Inl e, p1)
      | (Inr u, p1) \<Rightarrow>
          (case run g (Chdir targetPath) p1 of
             (Inl e, p2) \<Rightarrow> (Inl e, p2)
           | (Inr u, p2) \<Rightarrow>
               (let tgt = js_or (js_or (hash opts) (tag opts)) (version opts);
                    kind = (if truthy (hash opts) then ''commit''
                                  else if truthy (tag opts) then ''tag'' else ''version'')
                in if truthy tgt \<and> tgt \<noteq> OptStr ''latest'' then
                     (case run g (CheckoutTarget (str_of tgt))
                             (say Log (''Switching to '' @ kind @ '' '' @ str_of tgt @ ''...'') p2) of
                        (Inl e, p3) \<Rightarrow> (Inl e, p3)
                      | (Inr u, p3) \<Rightarrow>
                          (Inr (), ensureMainBranchFromCurrentState g tgt kind p3))
                   else (Inr (), ensureMainBranchFromCurrentState g tgt kind p2))))"

definition cloneRepository :: "'w env \<Rightarrow> string \<Rightarrow> options \<Rightarrow> 'w proc \<Rightarrow> bool \<times> 'w proc" where
  "cloneRepository g targetPath opts p =
     (case cloneRepository_try g targetPath opts p of
        (Inr u, p') \<Rightarrow> (True, p')
      | (Inl e, p') \<Rightarrow> (False, say Error (''Failed to clone repository: '' @ e) p'))"

section \<open>Remote topology and the initial commit\<close>

text \<open>\<^verbatim>\<open>answer.toLowerCase() === "y"\<close>.\<close>

definition answered_yes :: "string \<Rightarrow> bool" where
  "answered_yes a = (a = ''y'' \<or> a = ''Y'')"

text \<open>The renaming of the clone's remote, with its fallback; neither failure is thrown on.\<close>

definition configure_upstream :: "'w env \<Rightarrow> 'w proc \<Rightarrow> 'w proc" where
  "configure_upstream g p =
     (case run g (RemoteRename ''origin'' ''upstream'') p of
        (Inr u, p1) \<Rightarrow> say Log ''Configured upstream remote for updates'' p1
      | (Inl e, p1) \<Rightarrow>
          (case run g (RemoteRemove ''origin'') p1 of
             (Inl e2, p2) \<Rightarrow> say Log (''Could not set up upstream remote: '' @ e2) p2
           | (Inr u, p2) \<Rightarrow>
               (case run g (RemoteAdd ''upstream'' repoUrl) p2 of
                  (Inl e2, p3) \<Rightarrow> say Log (''Could not set up upstream remote: '' @ e2) p3
                | (Inr u, p3) \<Rightarrow> say Log ''Set up upstream remote for updates'' p3)))"

text \<open>
  The optional connection to the user's own repository. \<open>question\<close> gives the answer
  typed at each prompt.
\<close>

definition connect_own_repository :: "'w env \<Rightarrow> (string \<Rightarrow> string) \<Rightarrow> 'w proc \<Rightarrow> 'w proc" where
  "connect_own_repository g question p =
     (if answered_yes (question ''Connect to your own Git repository? (y/n): '') then
        (let url = js_trim (question ''Enter your repository URL (or press Enter to skip): '')
         in if url \<noteq> [] then
              (case run g (RemoteAdd ''origin'' url) p of
                 (Inl e, p1) \<Rightarrow> say Log (''Could not add origin remote: '' @ e) p1
               | (Inr u, p1) \<Rightarrow>
                   (let p2 = say Log ''Added your repository as origin'' p1
                    in if answered_yes (question ''Push now? (y/n): '') then
                         (case run g (Push ''origin'' ''main'') p2 of
                            (Inr u, p3) \<Rightarrow> say Log ''Pushed to your repository'' p3
                          | (Inl e, p3) \<Rightarrow>
                              say Log ''You can push later with: git push -u origin main''
                                (say Log (''Push failed: '' @ e) p3))
                       else p2))
            else p)
      else p)"

definition setupGit_try ::
  "'w env \<Rightarrow> (string \<Rightarrow> string) \<Rightarrow> string \<Rightarrow> 'w proc \<Rightarrow> (string + unit) \<times> 'w proc" where
  "setupGit_try g question targetPath p =
     (case run g (Chdir targetPath) p of
        (Inl e, p1) \<Rightarrow> (Inl e, p1)
      | (Inr u, p1) \<Rightarrow>
          (let p2 = configure_upstream g (say Log ''Setting up git repository...'' p1)
           in case run g (Config ''merge.ours.driver'' ''true'') p2 of
                (Inl e, p3) \<Rightarrow> (Inl e, p3)
              | (Inr u, p3) \<Rightarrow>
                  (case run g (Config ''pull.rebase'' ''false'') p3 of
                     (Inl e, p4) \<Rightarrow> (Inl e, p4)
                   | (Inr u, p4) \<Rightarrow>
                       (case run g AddAll (connect_own_repository g question p4) of
                          (Inl e, p5) \<Rightarrow> (Inl e, p5)
                        | (Inr u, p5) \<Rightarrow>
                            (case run g (Commit ''Initialize Aether CMS project'') p5 of
                               (Inl e, p6) \<Rightarrow> (Inl e, p6)
                             | (Inr u, p6) \<Rightarrow>
                                 (Inr (), say Log ''Git configured for seamless updates'' p6))))))"

definition setupGitRepository :: "'w env \<Rightarrow> (string \<Rightarrow> string) \<Rightarrow> string \<Rightarrow> 'w proc \<Rightarrow> 'w proc" where
  "setupGitRepository g question targetPath p =
     (case setupGit_try g question targetPath p of
        (Inr u, p') \<Rightarrow> p'
      | (Inl e, p') \<Rightarrow> say Log (''Git setup failed: '' @ e) p')"

section \<open>The manifest and its update metadata\<close>

text \<open>
  The values \<^verbatim>\<open>JSON.parse\<close> yields, and \<^verbatim>\<open>undefined\<close> for a property that is not
  there. An object is its properties in insertion order. Numbers are integers here: the
  code only tests them for truthiness.
\<close>

datatype jsval =
    Undefined
  | Null
  | Boolean bool
  | Number int
  | Str string
  | Arr "jsval list"
  | Obj "(string \<times> jsval) list"

definition get_prop :: "(string \<times> jsval) list \<Rightarrow> string \<Rightarrow> jsval" where
  "get_prop ps k = (case map_of ps k of None \<Rightarrow> Undefined | Some v \<Rightarrow> v)"

fun set_prop :: "string \<Rightarrow> jsval \<Rightarrow> (string \<times> jsval) list \<Rightarrow> (string \<times> jsval) list" where
  "set_prop k v [] = [(k, v)]"
| "set_prop k v ((k', v') # ps) = (if k' = k then (k, v) # ps else (k', v') # set_prop k v ps)"

fun js_truthy :: "jsval \<Rightarrow> bool" where
  "js_truthy Undefined = False"
| "js_truthy Null = False"
| "js_truthy (Boolean b) = b"
| "js_truthy (Number n) = (n \<noteq> 0)"
| "js_truthy (Str s) = (s \<noteq> [])"
| "js_truthy (Arr vs) = True"
| "js_truthy (Obj ps) = True"

text \<open>An option of the command line as a value.\<close>

definition of_opt :: "optval \<Rightarrow> jsval" where
  "of_opt v = (case v of OptNull \<Rightarrow> Null | OptUndefined \<Rightarrow> Undefined | OptStr s \<Rightarrow> Str s)"

text \<open>
  What a file holds after \<^verbatim>\<open>JSON.stringify\<close> wrote a value: a property whose value is
  undefined is left out, an undefined array element is written as null.
\<close>

primrec json_of :: "jsval \<Rightarrow> jsval" where
  "json_of Undefined = Undefined"
| "json_of Null = Null"
| "json_of (Boolean b) = Boolean b"
| "json_of (Number n) = Number n"
| "json_of (Str s) = Str s"
| "json_of (Arr vs) = Arr (map (\<lambda>v. if v = Undefined then Null else v) (map json_of vs))"
| "json_of (Obj ps) = Obj (filter (\<lambda>kv. snd kv \<noteq> Undefined) (map (map_prod id json_of) ps))"

text \<open>The manifest file: text that does not parse, or the value it parses to.\<close>

datatype file_content = Garbage | Json jsval

text \<open>
  The \<^verbatim>\<open>try\<close> block that determines the installed version; a failing
  \<^verbatim>\<open>git rev-parse HEAD\<close> leaves the initial \<open>unknown\<close>.
\<close>

definition installed_version :: "'w env \<Rightarrow> options \<Rightarrow> 'w proc \<Rightarrow> string \<times> 'w proc" where
  "installed_version g opts p =
     (if truthy (hash opts) then (str_of (hash opts), p)
      else if truthy (tag opts) then (str_of (tag opts), p)
      else if truthy (version opts) \<and> version opts \<noteq> OptStr ''latest'' then (str_of (version opts), p)
      else (case execSync g RevParseHead p of
              (Inr out, p1) \<Rightarrow> (take 7 (js_trim out), p1)
            | (Inl e, p1) \<Rightarrow> (''unknown'', say Warn ''Could not determine installed version'' p1)))"

definition original_template ::
  "(string \<times> jsval) list \<Rightarrow> string \<Rightarrow> string \<Rightarrow> options \<Rightarrow> jsval" where
  "original_template pkg installedVersion now opts =
     Obj [(''templateName'', get_prop pkg ''name''),
          (''templateVersion'', get_prop pkg ''version''),
          (''templateRepository'', get_prop pkg ''repository''),
          (''installedVersion'', Str installedVersion),
          (''installedAt'', Str now),
          (''installedFrom'', Str ''create-aether-cms''),
          (''installOptions'',
             Obj [(''version'', of_opt (version opts)),
                  (''tag'', of_opt (tag opts)),
                  (''hash'', of_opt (hash opts))])]"

definition or_default :: "jsval \<Rightarrow> string \<Rightarrow> jsval" where
  "or_default v d = (if js_truthy v then v else Str d)"

text \<open>The four assignments to the scripts object.\<close>

definition ensure_scripts :: "(string \<times> jsval) list \<Rightarrow> (string \<times> jsval) list" where
  "ensure_scripts sc =
     (let s1 = set_prop ''start'' (or_default (get_prop sc ''start'') ''node index.js'') sc;
          s2 = set_prop ''build''
                 (or_default (get_prop s1 ''build'') ''node assets/js/generate-static.js --'') s1;
          s3 = set_prop ''check-updates'' (Str ''node assets/js/check-updates.js'') s2
      in set_prop ''update-aether'' (Str ''node assets/js/update-aether.js'') s3)"

text \<open>
  \<^verbatim>\<open>updatePackageJson\<close>. \<open>pkg_file\<close> is the file at the manifest's path, \<^term>\<open>None\<close>
  when there is none, and \<open>now\<close> the timestamp \<^verbatim>\<open>new Date().toISOString()\<close> gives.
  The result is the file afterwards, or the error the function throws: of
  \<^verbatim>\<open>JSON.parse\<close>, of reading a property of null, or (the module being strict code)
  of assigning a property to a primitive. Properties assigned to an array are not
  written by \<^verbatim>\<open>JSON.stringify\<close>.
\<close>

definition updatePackageJson ::
  "'w env \<Rightarrow> string \<Rightarrow> file_content option \<Rightarrow> optval \<Rightarrow> options \<Rightarrow> 'w proc
     \<Rightarrow> (string + file_content option) \<times> 'w proc" where
  "updatePackageJson g now pkg_file name opts p =
     (case pkg_file of
        None \<Rightarrow> (Inr None, p)
      | Some Garbage \<Rightarrow> (Inl ''SyntaxError'', p)
      | Some (Json packageJson) \<Rightarrow>
          (case installed_version g opts p of (installedVersion, p1) \<Rightarrow>
             (let written = (\<lambda>v. (Inr (Some (Json (json_of v))),
                              say Log (''Updated package.json (installed: '' @ installedVersion @ '')'') p1))
              in case packageJson of
                   Obj pkg \<Rightarrow>
                     (let pkg1 = set_prop ''name'' (of_opt name) pkg;
                          pkg2 = set_prop ''version'' (Str ''0.1.0'') pkg1;
                          pkg3 = set_prop ''private'' (Boolean True) pkg2;
                          pkg4 = set_prop ''aetherCMS''
                                   (original_template pkg installedVersion now opts) pkg3;
                          scripts = (if js_truthy (get_prop pkg4 ''scripts'')
                                     then get_prop pkg4 ''scripts'' else Obj [])
                      in case scripts of
                           Obj sc \<Rightarrow> written (Obj (set_prop ''scripts'' (Obj (ensure_scripts sc)) pkg4))
                         | Arr vs \<Rightarrow> written (Obj (set_prop ''scripts'' (Arr vs) pkg4))
                         | other \<Rightarrow> (Inl ''TypeError'', p1))
                 | Arr vs \<Rightarrow> written (Arr vs)
                 | other \<Rightarrow> (Inl ''TypeError'', p1))))"

section \<open>A model of git\<close>

text \<open>
  The environment the code runs against, as far as its commands observe it: the template
  repository on the network (its default branch, branches, tags and commits), the
  installed git (whether it has \<^verbatim>\<open>switch\<close>, whether an author identity is set), and
  the clone at the destination (current revision, current branch or none when detached,
  local branches, remotes, configuration). A tag is its name, the commit it marks and,
  when annotated, the id of its tag object. The working tree is not modelled: every
  checkout the code makes happens on a clean tree.
\<close>

record git_world =
  online :: bool
  has_switch :: bool
  identity_set :: bool
  tpl_default :: string
  tpl_branches :: "(string \<times> string) list"
  tpl_tags :: "(string \<times> string \<times> string option) list"
  tpl_commits :: "string list"
  clone_dir :: "string option"
  in_clone :: bool
  head_rev :: string
  cur_branch :: "string option"
  branches :: "string \<rightharpoonup> string"
  remotes :: "string \<rightharpoonup> string"
  config :: "string \<rightharpoonup> string"
  own_commits :: "string list"
  fresh_rev :: string

definition all_commits :: "git_world \<Rightarrow> string list" where
  "all_commits w = tpl_commits w @ own_commits w"

text \<open>A commit named in full, or by a prefix of four characters or more that only it has.\<close>

definition resolve_commit :: "git_world \<Rightarrow> string \<Rightarrow> string option" where
  "resolve_commit w name =
     (if name \<in> set (all_commits w) then Some name
      else if length name < 4 then None
      else (case filter (\<lambda>c. starts_with c name) (remdups (all_commits w)) of
              [c] \<Rightarrow> Some c
            | other \<Rightarrow> None))"

text \<open>The lines \<^verbatim>\<open>git ls-remote --tags\<close> prints for one tag.\<close>

definition tag_lines :: "string \<times> string \<times> string option \<Rightarrow> string" where
  "tag_lines t =
     (case t of
        (name, commit, None) \<Rightarrow> commit @ [tab] @ tag_prefix @ name @ [nl]
      | (name, commit, Some tag_object) \<Rightarrow>
          tag_object @ [tab] @ tag_prefix @ name @ [nl]
          @ commit @ [tab] @ tag_prefix @ name @ ''^{}'' @ [nl])"

definition ls_remote_tags :: "git_world \<Rightarrow> string" where
  "ls_remote_tags w = concat (map tag_lines (tpl_tags w))"

definition not_a_repository :: string where
  "not_a_repository = ''fatal: not a git repository''"

text \<open>
  \<^verbatim>\<open>git checkout <name>\<close>: a local branch is switched to; else a tag or a commit is
  checked out detached; else a branch of the cloned remote is created locally and
  switched to; else the command fails.
\<close>

definition checkout_name :: "string \<Rightarrow> git_world \<Rightarrow> (string + string) \<times> git_world" where
  "checkout_name name w =
     (if \<not> in_clone w then (Inl not_a_repository, w)
      else (case branches w name of
          Some r \<Rightarrow> (Inr [], w\<lparr>cur_branch := Some name, head_rev := r\<rparr>)
        | None \<Rightarrow>
           (case map_of (tpl_tags w) name of
              Some (commit, obj) \<Rightarrow> (Inr [], w\<lparr>cur_branch := None, head_rev := commit\<rparr>)
            | None \<Rightarrow>
               (case map_of (tpl_branches w) name of
                  Some r \<Rightarrow>
                    (Inr [], w\<lparr>branches := (branches w)(name \<mapsto> r),
                                cur_branch := Some name, head_rev := r\<rparr>)
                | None \<Rightarrow>
                   (case resolve_commit w name of
                      Some c \<Rightarrow> (Inr [], w\<lparr>cur_branch := None, head_rev := c\<rparr>)
                    | None \<Rightarrow> (Inl ''error: pathspec did not match'', w))))))"

text \<open>Creating a branch at the current revision and switching to it.\<close>

definition create_and_switch :: "string \<Rightarrow> git_world \<Rightarrow> (string + string) \<times> git_world" where
  "create_and_switch name w =
     (if \<not> in_clone w then (Inl not_a_repository, w)
      else if name \<in> dom (branches w) then (Inl ''fatal: a branch with that name already exists'', w)
      else (Inr [], w\<lparr>branches := (branches w)(name \<mapsto> head_rev w), cur_branch := Some name\<rparr>))"

definition git :: "git_world env" where
  "git c w =
     (case c of
        LsRemoteTags url \<Rightarrow>
          (if online w \<and> url = repoUrl then (Inr (ls_remote_tags w), w)
           else (Inl ''fatal: unable to access the remote'', w))
      | Clone url dir \<Rightarrow>
          (if \<not> online w \<or> url \<noteq> repoUrl then (Inl ''fatal: unable to access the remote'', w)
           else if clone_dir w \<noteq> None then (Inl ''fatal: destination path already exists'', w)
           else (case map_of (tpl_branches w) (tpl_default w) of
                   None \<Rightarrow> (Inl ''fatal: the remote has no default branch'', w)
                 | Some r \<Rightarrow>
                     (Inr [], w\<lparr>clone_dir := Some dir, head_rev := r,
                                 cur_branch := Some (tpl_default w),
                                 branches := [tpl_default w \<mapsto> r],
                                 remotes := [''origin'' \<mapsto> url],
                                 config := Map.empty, own_commits := []\<rparr>)))
      | Chdir dir \<Rightarrow>
          (if clone_dir w = Some dir then (Inr [], w\<lparr>in_clone := True\<rparr>)
           else (Inl ''ENOENT: no such file or directory'', w))
      | CheckoutTarget name \<Rightarrow> checkout_name name w
      | SymbolicRefHead \<Rightarrow>
          (case (if in_clone w then cur_branch w else None) of
             Some b \<Rightarrow> (Inr (b @ [nl]), w)
           | None \<Rightarrow> (Inr [nl], w))
      | SwitchCreate name \<Rightarrow>
          (if has_switch w then create_and_switch name w
           else (Inl ''git: switch is not a git command'', w))
      | CheckoutCreate name \<Rightarrow> create_and_switch name w
      | RevParseHead \<Rightarrow>
          (if in_clone w then (Inr (head_rev w @ [nl]), w) else (Inl not_a_repository, w))
      | Branch name start \<Rightarrow>
          (if \<not> in_clone w then (Inl not_a_repository, w)
           else if name \<in> dom (branches w) then (Inl ''fatal: a branch with that name already exists'', w)
           else (case resolve_commit w start of
                   None \<Rightarrow> (Inl ''fatal: not a valid object name'', w)
                 | Some c \<Rightarrow> (Inr [], w\<lparr>branches := (branches w)(name \<mapsto> c)\<rparr>)))
      | BranchForce name start \<Rightarrow>
          (if \<not> in_clone w then (Inl not_a_repository, w)
           else if cur_branch w = Some name then (Inl ''fatal: cannot force update the current branch'', w)
           else (case resolve_commit w start of
                   None \<Rightarrow> (Inl ''fatal: not a valid object name'', w)
                 | Some c \<Rightarrow> (Inr [], w\<lparr>branches := (branches w)(name \<mapsto> c)\<rparr>)))
      | Checkout name \<Rightarrow> checkout_name name w
      | RemoteRename old new \<Rightarrow>
          (if \<not> in_clone w then (Inl not_a_repository, w)
           else (case remotes w old of
                   None \<Rightarrow> (Inl ''error: no such remote'', w)
                 | Some url \<Rightarrow>
                     if new \<in> dom (remotes w) then (Inl ''fatal: remote already exists'', w)
                     else (Inr [], w\<lparr>remotes := ((remotes w)(old := None))(new \<mapsto> url)\<rparr>)))
      | RemoteRemove name \<Rightarrow>
          (if \<not> in_clone w then (Inl not_a_repository, w)
           else if name \<notin> dom (remotes w) then (Inl ''error: no such remote'', w)
           else (Inr [], w\<lparr>remotes := (remotes w)(name := None)\<rparr>))
      | RemoteAdd name url \<Rightarrow>
          (if \<not> in_clone w then (Inl not_a_repository, w)
           else if name \<in> dom (remotes w) then (Inl ''error: remote already exists'', w)
           else (Inr [], w\<lparr>remotes := (remotes w)(name \<mapsto> url)\<rparr>))
      | Config key val \<Rightarrow>
          (if in_clone w then (Inr [], w\<lparr>config := (config w)(key \<mapsto> val)\<rparr>)
           else (Inl not_a_repository, w))
      | AddAll \<Rightarrow> (if in_clone w then (Inr [], w) else (Inl not_a_repository, w))
      | Commit msg \<Rightarrow>
          (if \<not> in_clone w then (Inl not_a_repository, w)
           else if \<not> identity_set w then (Inl ''fatal: unable to auto-detect email address'', w)
           else if fresh_rev w \<in> set (all_commits w) then (Inl ''nothing to commit'', w)
           else (Inr [], w\<lparr>head_rev := fresh_rev w,
                            own_commits := own_commits w @ [fresh_rev w],
                            branches := (case cur_branch w of
                                           None \<Rightarrow> branches w
                                         | Some b \<Rightarrow> (branches w)(b \<mapsto> fresh_rev w))\<rparr>))
      | Push remote branch \<Rightarrow>
          (if \<not> in_clone w then (Inl not_a_repository, w)
           else if remote \<notin> dom (remotes w) then (Inl ''fatal: no such remote'', w)
           else if branch \<notin> dom (branches w) then (Inl ''error: src refspec does not match any'', w)
           else if \<not> online w then (Inl ''fatal: unable to access the remote'', w)
           else (Inr [], w)))"

text \<open>
  A template as git keeps it: object ids are lower-case hexadecimal, and a tag name is
  not empty and has no line break and no caret (git refuses both in a reference name).
\<close>

definition hex_id :: "string \<Rightarrow> bool" where
  "hex_id s = list_all (\<lambda>c. c \<in> set ''0123456789abcdef'') s"

definition tag_name_ok :: "string \<Rightarrow> bool" where
  "tag_name_ok n = (n \<noteq> [] \<and> list_all (\<lambda>c. c \<noteq> CHR 0x0A \<and> c \<noteq> CHR 0x0D \<and> c \<noteq> CHR ''^'') n)"

definition tag_ok :: "string \<times> string \<times> string option \<Rightarrow> bool" where
  "tag_ok t = (case t of (name, commit, obj) \<Rightarrow>
      tag_name_ok name \<and> hex_id commit \<and> (case obj of None \<Rightarrow> True | Some x \<Rightarrow> hex_id x))"

text \<open>The lines of the tag listing for one tag, without their line ends.\<close>

definition ref_lines :: "string \<times> string \<times> string option \<Rightarrow> string list" where
  "ref_lines t =
     (case t of
        (name, commit, None) \<Rightarrow> [commit @ [tab] @ tag_prefix @ name]
      | (name, commit, Some tag_object) \<Rightarrow>
          [tag_object @ [tab] @ tag_prefix @ name,
           commit @ [tab] @ tag_prefix @ name @ ''^{}''])"

text \<open>The names \<^verbatim>\<open>validateTarget\<close> reads off lines, before it sorts them.\<close>

definition shown :: "string list \<Rightarrow> string list" where
  "shown ls = filter (\<lambda>t. \<not> js_includes t ''^{}'')
       (List.map_filter match_tag_ref (filter (\<lambda>line. js_includes line tag_prefix) ls))"

text \<open>What \<^verbatim>\<open>validateTarget\<close> prints for the array \<open>available\<close>.\<close>

definition suggestion_lines :: "string list \<Rightarrow> (level \<times> string) list" where
  "suggestion_lines available =
     (if available = [] then []
      else (Log, nl # ''Available versions:'')
           # map (\<lambda>v. (Log, ''  '' @ v)) (take 10 available)
           @ (if length available > 10
              then [(Log, ''  ... and '' @ show_nat (length available - 10) @ '' more'')]
              else []))"

text \<open>A name without white space, as branch names and revision ids are.\<close>

definition no_space :: "string \<Rightarrow> bool" where
  "no_space s = (s \<noteq> [] \<and> list_all (\<lambda>c. \<not> is_space c) s)"

text \<open>
  A value the scripts assignments can work on: a falsy one, which \<^verbatim>\<open>|| {}\<close> replaces,
  or an object or array. Assigning a property to any other value throws.
\<close>

definition scripts_usable :: "jsval \<Rightarrow> bool" where
  "scripts_usable v =
     (case v of Boolean b \<Rightarrow> \<not> b | Number n \<Rightarrow> n = 0 | Str s \<Rightarrow> s = [] | other \<Rightarrow> True)"

section \<open>Example environments\<close>

definition rev_a :: string where
  "rev_a = ''4f2a9c1e8b7d6a5f4e3d2c1b0a9f8e7d6c5b4a3f''"

definition rev_b :: string where
  "rev_b = ''9e8d7c6b5a4f3e2d1c0b9a8f7e6d5c4b3a2f1e0d''"

definition rev_t :: string where
  "rev_t = ''1a2b3c4d5e6f7a8b9c0d1e2f3a4b5c6d7e8f9a0b''"

definition rev_n :: string where
  "rev_n = ''0c1d2e3f4a5b6c7d8e9f0a1b2c3d4e5f6a7b8c9d''"

definition dest :: string where
  "dest = ''/home/me/my-blog''"

text \<open>
  A template whose default branch is \<open>main\<close>, with a lightweight tag \<open>v1.0.0\<close> on an
  older commit and an annotated tag \<open>v1.2.0\<close> on the tip; nothing is cloned yet.
\<close>

definition template_world :: git_world where
  "template_world =
     \<lparr>online = True, has_switch = True, identity_set = True, tpl_default = ''main'',
      tpl_branches = [(''main'', rev_b)],
      tpl_tags = [(''v1.0.0'', rev_a, None), (''v1.2.0'', rev_b, Some rev_t)],
      tpl_commits = [rev_a, rev_b],
      clone_dir = None, in_clone = False, head_rev = [], cur_branch = None,
      branches = Map.empty, remotes = Map.empty, config = Map.empty, own_commits = [],
      fresh_rev = rev_n\<rparr>"

definition fresh_start :: "git_world proc" where
  "fresh_start = \<lparr>world = template_world, ran = [], console = []\<rparr>"

definition offline_start :: "git_world proc" where
  "offline_start = \<lparr>world = template_world\<lparr>online := False\<rparr>, ran = [], console = []\<rparr>"

text \<open>The clone of that template, as \<^verbatim>\<open>git clone\<close> leaves it and entered.\<close>

definition clone_on_main :: git_world where
  "clone_on_main =
     template_world\<lparr>clone_dir := Some dest, in_clone := True, head_rev := rev_b,
       cur_branch := Some ''main'', branches := [''main'' \<mapsto> rev_b],
       remotes := [''origin'' \<mapsto> repoUrl]\<rparr>"

text \<open>The same clone on a branch \<open>develop\<close> at the older commit, \<open>main\<close> still at the tip.\<close>

definition clone_on_develop :: git_world where
  "clone_on_develop =
     clone_on_main\<lparr>head_rev := rev_a, cur_branch := Some ''develop'',
       branches := [''main'' \<mapsto> rev_b, ''develop'' \<mapsto> rev_a]\<rparr>"

text \<open>
  A clone of a template whose default branch is \<open>master\<close>, detached at the older commit,
  under a git that has no \<^verbatim>\<open>switch\<close>.
\<close>

definition legacy_detached :: git_world where
  "legacy_detached =
     clone_on_main\<lparr>has_switch := False, tpl_default := ''master'',
       tpl_branches := [(''master'', rev_b)], head_rev := rev_a, cur_branch := None,
       branches := [''master'' \<mapsto> rev_b]\<rparr>"

text \<open>The clone of the template after the tag \<open>v1.0.0\<close> was checked out: detached.\<close>

definition clone_at_tag :: git_world where
  "clone_at_tag = clone_on_main\<lparr>head_rev := rev_a, cur_branch := None\<rparr>"

text \<open>
  An environment, with nothing to change, in which HEAD is detached and both commands
  that create and switch in one step fail, while every other command succeeds.
\<close>

definition two_step_only :: "unit env" where
  "two_step_only c w =
     (case c of
        SymbolicRefHead \<Rightarrow> (Inr [nl], w)
      | SwitchCreate name \<Rightarrow> (Inl ''git: switch is not a git command'', w)
      | CheckoutCreate name \<Rightarrow> (Inl ''error: unknown switch b'', w)
      | RevParseHead \<Rightarrow> (Inr (rev_a @ [nl]), w)
      | other \<Rightarrow> (Inr [], w))"

text \<open>The options of \<^verbatim>\<open>my-blog --version\<close>: the flag is last, its value undefined.\<close>

definition opts_valueless :: options where
  "opts_valueless = \<lparr>projectName = OptStr ''my-blog'', version = OptUndefined, tag = OptNull,
                     hash = OptNull, helpFlag = False\<rparr>"

definition opts_latest :: options where
  "opts_latest = \<lparr>projectName = OptStr ''my-blog'', version = OptStr ''latest'', tag = OptNull,
                  hash = OptNull, helpFlag = False\<rparr>"

definition opts_tag :: options where
  "opts_tag = \<lparr>projectName = OptStr ''my-blog'', version = OptStr ''latest'',
               tag = OptStr ''v1.0.0'', hash = OptNull, helpFlag = False\<rparr>"

text \<open>A user who declines to connect a repository of their own.\<close>

definition no_thanks :: "string \<Rightarrow> string" where
  "no_thanks prompt = ''n''"

definition template_manifest :: "(string \<times> jsval) list" where
  "template_manifest =
     [(''name'', Str ''aether-cms''), (''version'', Str ''1.2.0''),
      (''scripts'', Obj [(''start'', Str ''node index.js'')])]"

section \<open>Properties of the string and object primitives\<close>

lemma js_trim_line: "no_space s \<Longrightarrow> js_trim (s @ [nl]) = s"
proof -
  assume a: "no_space s"
  then have ne: "s \<noteq> []" and all: "list_all (\<lambda>c. \<not> is_space c) s"
    by (auto simp: no_space_def)
  have sp: "is_space nl" by (simp add: is_space_def nl_def)
  have "dropWhile is_space (s @ [nl]) = s @ [nl]"
    using ne all by (cases s) auto
  moreover have "dropWhile is_space (nl # rev s) = rev s"
    using ne all sp by (cases "rev s") (auto simp: list_all_iff)
  ultimately show ?thesis by (simp add: js_trim_def)
qed

lemma no_space_revs: "no_space rev_a" "no_space rev_b" "no_space rev_n"
  by (simp_all add: no_space_def is_space_def rev_a_def rev_b_def rev_n_def)

lemma get_prop_set_prop:
  "get_prop (set_prop k v ps) k' = (if k' = k then v else get_prop ps k')"
  by (induction ps) (auto simp: get_prop_def)

lemma json_of_Undefined: "json_of v = Undefined \<longleftrightarrow> v = Undefined"
  by (cases v) auto

lemma get_prop_written:
  "get_prop ps k \<noteq> Undefined \<Longrightarrow>
   get_prop (filter (\<lambda>kv. snd kv \<noteq> Undefined) (map (map_prod id json_of) ps)) k
     = json_of (get_prop ps k)"
  by (induction ps) (auto simp: get_prop_def json_of_Undefined)

section \<open>The target resolver\<close>

text \<open>
  C1. For every options record, whatever combination of hash, tag and version is set,
  \<^verbatim>\<open>determineTarget\<close> returns the target the specification describes: the
  highest-priority non-empty field among hash, tag and a version other than "latest",
  and the latest target when none is set. It is a total function of the options alone.
\<close>

theorem determineTarget_priority:
  "determineTarget opts = resolve_spec opts"
  by (cases "hash opts"; cases "tag opts"; cases "version opts")
     (auto simp: determineTarget_def resolve_spec_def selector_fields_def truthy_def str_of_def)

theorem determineTarget_priority_witness:
  "determineTarget \<lparr>projectName = OptStr ''my-blog'', version = OptStr ''latest'',
      tag = OptStr ''stable'', hash = OptStr ''abc1234'', helpFlag = False\<rparr>
   = \<lparr>targetType = ''hash'', target = ''abc1234''\<rparr>"
  by (simp add: determineTarget_priority resolve_spec_def selector_fields_def)

section \<open>The remote existence check\<close>

lemma split_on_line: "sep \<notin> set l \<Longrightarrow> split_on sep (l @ sep # rest) = l # split_on sep rest"
  by (induction l) auto

lemma starts_with_append: "starts_with (p @ s) p"
  by (induction p) auto

lemma js_includes_append: "js_includes (a @ b @ c) b"
proof (induction a)
  case Nil
  show ?case by (cases "b @ c") (use starts_with_append[of b c] in \<open>auto\<close>)
next
  case (Cons x a)
  then show ?case by simp
qed

lemma not_includes_char: "c \<notin> set s \<Longrightarrow> \<not> js_includes s (c # rest)"
  by (induction s) auto

lemma match_after_id:
  assumes "\<forall>c \<in> set pre. c \<noteq> CHR ''r''" and "name \<noteq> []" and "\<not> list_ex is_line_terminator name"
  shows "match_tag_ref (pre @ tag_prefix @ name) = Some name"
  using assms(1)
proof (induction pre)
  case Nil
  have "tag_prefix @ name = CHR ''r'' # (''efs/tags/'' @ name)" by (simp add: tag_prefix_def)
  moreover have "starts_with (tag_prefix @ name) tag_prefix" by (rule starts_with_append)
  ultimately show ?case using assms(2,3)
    by (simp add: Let_def) (simp add: tag_prefix_def)
next
  case (Cons x pre)
  then have "x \<noteq> CHR ''r''" by simp
  then have "\<not> starts_with (x # pre @ tag_prefix @ name) tag_prefix"
    by (simp add: tag_prefix_def)
  with Cons show ?case by simp
qed

lemma shown_append: "shown (xs @ ys) = shown xs @ shown ys"
  by (simp add: shown_def List.map_filter_def)

lemma shown_empty_line: "shown [[]] = []"
  by (simp add: shown_def List.map_filter_def tag_prefix_def)

lemma hex_char:
  assumes "c \<in> set ''0123456789abcdef''"
  shows "c \<noteq> nl" and "c \<noteq> CHR ''r''" and "c \<noteq> tab"
  using assms by (auto simp: nl_def tab_def)

lemma hex_no_nl: "hex_id s \<Longrightarrow> nl \<notin> set s"
proof
  assume h: "hex_id s" and "nl \<in> set s"
  then have "nl \<in> set ''0123456789abcdef''"
    unfolding hex_id_def list_all_iff by blast
  then show False using hex_char(1) by blast
qed

lemma hex_no_r: "hex_id s \<Longrightarrow> \<forall>c \<in> set (s @ [tab]). c \<noteq> CHR ''r''"
proof
  fix c assume h: "hex_id s" and c: "c \<in> set (s @ [tab])"
  show "c \<noteq> CHR ''r''"
  proof (cases "c = tab")
    case True
    then show ?thesis by (simp add: tab_def)
  next
    case False
    with c have "c \<in> set s" by simp
    with h have "c \<in> set ''0123456789abcdef''"
      unfolding hex_id_def list_all_iff by blast
    then show ?thesis by (rule hex_char(2))
  qed
qed

lemma name_no_nl: "tag_name_ok n \<Longrightarrow> nl \<notin> set n"
  by (auto simp: tag_name_ok_def list_all_iff nl_def)

lemma split_tag_lines:
  assumes "tag_ok t"
  shows "split_on nl (tag_lines t @ rest) = ref_lines t @ split_on nl rest"
proof -
  obtain name commit obj where t: "t = (name, commit, obj)" by (cases t)
  have n: "nl \<notin> set name" and c: "nl \<notin> set commit"
    using assms t by (auto simp: tag_ok_def name_no_nl hex_no_nl)
  have p: "nl \<notin> set tag_prefix" "nl \<noteq> tab" "nl \<notin> set ''^{}''"
    by (simp_all add: tag_prefix_def nl_def tab_def)
  show ?thesis
  proof (cases obj)
    case None
    have "nl \<notin> set (commit @ [tab] @ tag_prefix @ name)" using n c p by auto
    from split_on_line[OF this, of rest] show ?thesis
      using t None by (simp add: tag_lines_def ref_lines_def)
  next
    case (Some x)
    then have x: "nl \<notin> set x" using assms t by (auto simp: tag_ok_def hex_no_nl)
    have 1: "nl \<notin> set (x @ [tab] @ tag_prefix @ name)" using n x p by auto
    have 2: "nl \<notin> set (commit @ [tab] @ tag_prefix @ name @ ''^{}'')" using n c p by auto
    show ?thesis
      using t Some split_on_line[OF 1, of "commit @ [tab] @ tag_prefix @ name @ ''^{}'' @ nl # rest"]
        split_on_line[OF 2, of rest]
      by (simp add: tag_lines_def ref_lines_def)
  qed
qed

lemma split_listing:
  "\<forall>t \<in> set ts. tag_ok t \<Longrightarrow>
   split_on nl (concat (map tag_lines ts)) = concat (map ref_lines ts) @ [[]]"
  by (induction ts) (simp_all add: split_tag_lines)

lemma shown_line:
  assumes "hex_id i" and "n \<noteq> []" and "\<not> list_ex is_line_terminator n"
  shows "shown [i @ [tab] @ tag_prefix @ n] = (if js_includes n ''^{}'' then [] else [n])"
proof -
  have m: "match_tag_ref ((i @ [tab]) @ tag_prefix @ n) = Some n"
    using hex_no_r[OF assms(1)] assms(2,3) by (rule match_after_id)
  have "js_includes ((i @ [tab]) @ tag_prefix @ n) tag_prefix" by (rule js_includes_append)
  with m show ?thesis by (simp add: shown_def List.map_filter_def)
qed

lemma shown_ref_lines:
  assumes "tag_ok t"
  shows "shown (ref_lines t) = [fst t]"
proof -
  obtain name commit obj where t: "t = (name, commit, obj)" by (cases t)
  have ok: "tag_name_ok name" "hex_id commit" using assms t by (auto simp: tag_ok_def)
  have ne: "name \<noteq> []" using ok by (simp add: tag_name_ok_def)
  have lt: "\<not> list_ex is_line_terminator name"
    using ok by (auto simp: tag_name_ok_def list_all_iff list_ex_iff is_line_terminator_def)
  have caret: "CHR ''^'' \<notin> set name" using ok by (auto simp: tag_name_ok_def list_all_iff)
  have ni: "\<not> js_includes name ''^{}''" using caret by (rule not_includes_char)
  have plain: "shown [i @ [tab] @ tag_prefix @ name] = [name]" if "hex_id i" for i
    using shown_line[OF that ne lt] ni by simp
  show ?thesis
  proof (cases obj)
    case None
    then show ?thesis using t plain[OF ok(2)] by (simp add: ref_lines_def)
  next
    case (Some x)
    then have hx: "hex_id x" using assms t by (auto simp: tag_ok_def)
    have d: "js_includes (name @ ''^{}'') ''^{}''"
      using js_includes_append[of name "''^{}''" "[]"] by simp
    have lt2: "\<not> list_ex is_line_terminator (name @ ''^{}'')"
      using lt by (simp add: is_line_terminator_def)
    have "shown [commit @ [tab] @ tag_prefix @ name @ ''^{}''] = []"
      using shown_line[OF ok(2) _ lt2] d by simp
    moreover have "shown [x @ [tab] @ tag_prefix @ name] = [name]" using plain[OF hx] .
    ultimately show ?thesis
      using t Some shown_append[of "[x @ [tab] @ tag_prefix @ name]" "[commit @ [tab] @ tag_prefix @ name @ ''^{}'']"]
      by (simp add: ref_lines_def)
  qed
qed

lemma shown_listing:
  "\<forall>t \<in> set ts. tag_ok t \<Longrightarrow> shown (concat (map ref_lines ts)) = map fst ts"
  by (induction ts) (simp_all add: shown_append shown_ref_lines shown_def[of "[]"] List.map_filter_def)

text \<open>
  Read back from the listing of a template, the array \<open>available\<close> is the template's
  tag names in descending order: one entry per tag, the dereferenced lines left out.
\<close>

lemma available_versions_of_listing:
  assumes "\<forall>t \<in> set (tpl_tags w). tag_ok t"
  shows "available_versions (ls_remote_tags w) = rev (sort (map fst (tpl_tags w)))"
proof -
  have "available_versions (ls_remote_tags w) = rev (sort (shown (split_on nl (ls_remote_tags w))))"
    by (simp add: available_versions_def shown_def)
  also have "\<dots> = rev (sort (shown (concat (map ref_lines (tpl_tags w)) @ [[]])))"
    using split_listing[OF assms] by (simp add: ls_remote_tags_def)
  also have "\<dots> = rev (sort (map fst (tpl_tags w)))"
    using shown_listing[OF assms] by (simp add: shown_append shown_empty_line)
  finally show ?thesis .
qed

lemma say_all:
  "foldl (\<lambda>q v. say lvl (f v) q) q0 xs = q0\<lparr>console := console q0 @ map (\<lambda>v. (lvl, f v)) xs\<rparr>"
  by (induction xs arbitrary: q0) (simp_all add: say_def)

text \<open>
  When the text \<open>refs/tags/<request>\<close> does not occur in the listing, the check
  returns false and prints the error line, then the heading, at most ten names and the
  number of names left out.
\<close>

lemma validateTarget_not_found:
  assumes "g (LsRemoteTags repoUrl) (world p) = (Inr tags, w')"
    and "type \<noteq> ''hash''" and "tgt \<noteq> ''latest''"
    and "\<not> js_includes tags (tag_prefix @ tgt)"
  shows "validateTarget g tgt type p =
           (False, p\<lparr>world := w', ran := ran p @ [LsRemoteTags repoUrl],
                     console := console p
                       @ (Error, ''Version/tag '' @ [quote] @ tgt @ [quote] @ '' not found'')
                       # suggestion_lines (available_versions tags)\<rparr>)"
proof -
  have e: "execSync g (LsRemoteTags repoUrl) p
             = (Inr tags, p\<lparr>world := w', ran := ran p @ [LsRemoteTags repoUrl]\<rparr>)"
    using assms(1) by (simp add: execSync_def)
  show ?thesis
    unfolding validateTarget_def e
    using assms(2,3,4)
    by (simp add: Let_def say_all suggestion_lines_def del: show_nat.simps)
       (simp add: say_def del: show_nat.simps)
qed

lemma existing_tag_in_listing:
  assumes "(name, commit, obj) \<in> set (tpl_tags w)"
  shows "js_includes (ls_remote_tags w) (tag_prefix @ name)"
proof -
  obtain before after where s: "tpl_tags w = before @ (name, commit, obj) # after"
    using assms by (meson split_list)
  define x where "x = (case obj of None \<Rightarrow> commit | Some tag_object \<Rightarrow> tag_object) @ [tab]"
  define y where "y = (case obj of None \<Rightarrow> [nl]
                       | Some tag_object \<Rightarrow> [nl] @ commit @ [tab] @ tag_prefix @ name @ ''^{}'' @ [nl])"
  have l: "tag_lines (name, commit, obj) = x @ (tag_prefix @ name) @ y"
    by (cases obj) (simp_all add: tag_lines_def x_def y_def)
  have "ls_remote_tags w
          = (concat (map tag_lines before) @ x) @ (tag_prefix @ name)
            @ (y @ concat (map tag_lines after))"
    by (simp add: ls_remote_tags_def s l)
  then show ?thesis
    using js_includes_append[of "concat (map tag_lines before) @ x" "tag_prefix @ name"
            "y @ concat (map tag_lines after)"]
    by simp
qed

text \<open>A request that is the name of a tag of the template is reported as existing.\<close>

lemma existing_tag_is_found:
  assumes "online (world p)" and "(name, commit, obj) \<in> set (tpl_tags (world p))"
  shows "fst (validateTarget git name type p) = True"
  using assms(1) existing_tag_in_listing[OF assms(2)]
  by (simp add: validateTarget_def execSync_def git_def)

text \<open>
  Against a template that can be reached: when the check reports not found, the names it
  prints are the template's tags, the greatest first.
\<close>

lemma suggestions_are_the_tags:
  assumes "online (world p)" and "\<forall>t \<in> set (tpl_tags (world p)). tag_ok t"
    and "type \<noteq> ''hash''" and "tgt \<noteq> ''latest''"
    and "\<not> js_includes (ls_remote_tags (world p)) (tag_prefix @ tgt)"
  shows "validateTarget git tgt type p =
           (False, p\<lparr>ran := ran p @ [LsRemoteTags repoUrl],
                     console := console p
                       @ (Error, ''Version/tag '' @ [quote] @ tgt @ [quote] @ '' not found'')
                       # suggestion_lines (rev (sort (map fst (tpl_tags (world p)))))\<rparr>)"
proof -
  have g: "git (LsRemoteTags repoUrl) (world p) = (Inr (ls_remote_tags (world p)), world p)"
    using assms(1) by (simp add: git_def)
  show ?thesis
    using validateTarget_not_found[where g = git and p = p, OF g assms(3,4,5)] available_versions_of_listing[OF assms(2)]
    by simp
qed

text \<open>
  The example of the specification: the template has the tags \<open>v1.0.0\<close> and
  \<open>v1.2.0\<close>, the request is \<open>v1.1.0\<close>. The check reports not found and prints both
  tags, the later one first; the dereferenced line of the annotated tag is not printed.
\<close>

lemma validateTarget_suggests_existing_tags:
  "validateTarget git ''v1.1.0'' ''tag'' fresh_start =
     (False, fresh_start\<lparr>ran := [LsRemoteTags repoUrl],
        console := [(Error, ''Version/tag '' @ [quote] @ ''v1.1.0'' @ [quote] @ '' not found''),
                    (Log, nl # ''Available versions:''),
                    (Log, ''  v1.2.0''), (Log, ''  v1.0.0'')]\<rparr>)"
  by (simp add: validateTarget_def execSync_def git_def fresh_start_def template_world_def
        ls_remote_tags_def tag_lines_def tag_prefix_def rev_a_def rev_b_def rev_t_def nl_def
        tab_def repoUrl_def available_versions_def List.map_filter_def is_line_terminator_def
        say_def quote_def)

text \<open>
  C2. The claim: the check reports "exists" exactly when the requested value is the name
  of a tag of the remote, and a request that is only a prefix of a tag name is reported
  as not found. The code tests whether the text \<open>refs/tags/<request>\<close> occurs anywhere
  in the listing. With the tags \<open>v1.0.0\<close> and \<open>v1.2.0\<close> the request \<open>v1\<close>, which is
  no tag of the remote, is reported as existing, and nothing is printed.
\<close>

theorem validateTarget_accepts_tag_prefix:
  "validateTarget git ''v1'' ''tag'' fresh_start
     = (True, fresh_start\<lparr>ran := [LsRemoteTags repoUrl]\<rparr>)
   \<and> ''v1'' \<notin> fst ` set (tpl_tags (world fresh_start))"
  by (simp add: validateTarget_def execSync_def git_def fresh_start_def template_world_def
        ls_remote_tags_def tag_lines_def tag_prefix_def rev_a_def rev_b_def rev_t_def nl_def
        tab_def repoUrl_def)

text \<open>
  C3. The claim: for every request that is not a tag of the remote, the check reports not
  found and prints the existing tag names, dereferenced entries left out, in descending
  order, at most ten of them, and the number of those left out. For the request
  \<open>v1.2\<close>, which is not among the tags \<open>v1.0.0\<close> and \<open>v1.2.0\<close>, the code reports
  that it exists and its console stays empty: no tag is suggested.
\<close>

theorem validateTarget_no_suggestions_for_tag_prefix:
  "fst (validateTarget git ''v1.2'' ''tag'' fresh_start) = True
   \<and> console (snd (validateTarget git ''v1.2'' ''tag'' fresh_start)) = []
   \<and> map fst (tpl_tags (world fresh_start)) = [''v1.0.0'', ''v1.2.0'']"
  by (simp add: validateTarget_def execSync_def git_def fresh_start_def template_world_def
        ls_remote_tags_def tag_lines_def tag_prefix_def rev_a_def rev_b_def rev_t_def nl_def
        tab_def repoUrl_def)

text \<open>
  C4. Whatever the target, when the query for the remote's tags fails, the check returns
  true. It then has run the query and logged one warning that carries the error's
  message; for a hash or the target "latest" it returns true without running the query
  at all. The caller aborts only on false, so a failing query never aborts the run.
\<close>

theorem validateTarget_query_failure:
  assumes "g (LsRemoteTags repoUrl) (world p) = (Inl msg, w')"
  shows "validateTarget g tgt type p =
           (True, if type = ''hash'' \<or> tgt = ''latest'' then p
                  else p\<lparr>world := w', ran := ran p @ [LsRemoteTags repoUrl],
                          console := console p @ [(Warn, ''Could not validate target: '' @ msg)]\<rparr>)"
  using assms by (simp add: validateTarget_def execSync_def say_def)

theorem validateTarget_query_failure_witness:
  "validateTarget git ''v1.0.0'' ''tag'' offline_start =
     (True, offline_start\<lparr>ran := [LsRemoteTags repoUrl],
        console := [(Warn, ''Could not validate target: fatal: unable to access the remote'')]\<rparr>)"
  using validateTarget_query_failure
    [of git offline_start "''fatal: unable to access the remote''" "world offline_start"
        "''v1.0.0''" "''tag''"]
  by (simp add: git_def offline_start_def template_world_def)

section \<open>The update metadata\<close>

text \<open>
  C10. When there is no manifest file at the destination, \<^verbatim>\<open>updatePackageJson\<close> does
  nothing: it throws no error, there is still no file afterwards, no command has run and
  nothing is logged. No update metadata is written in that case.
\<close>

theorem updatePackageJson_without_manifest:
  "updatePackageJson g now None name opts p = (Inr None, p)"
  by (simp add: updatePackageJson_def)

section \<open>Branch normalisation\<close>

text \<open>
  C7. When the current branch of the clone is already \<open>main\<close>, the branch normaliser
  runs the query for the current branch and nothing else: no strategy that creates or
  switches a branch runs, and the repository (revision, branches, remotes) is as before.
\<close>

theorem ensureMain_on_main_changes_nothing:
  assumes "in_clone (world p)" and "cur_branch (world p) = Some ''main''"
  shows "ensureMainBranchFromCurrentState git tgt kind p =
           p\<lparr>ran := ran p @ [SymbolicRefHead],
             console := console p @ [(Log, ''Main branch setup complete'')]\<rparr>"
proof -
  have "no_space ''main''" by (simp add: no_space_def is_space_def)
  then have t: "js_trim (''main'' @ [nl]) = ''main''" by (rule js_trim_line)
  have q: "execSync git SymbolicRefHead p
             = (Inr (''main'' @ [nl]), p\<lparr>ran := ran p @ [SymbolicRefHead]\<rparr>)"
    using assms by (simp add: execSync_def git_def)
  show ?thesis
    unfolding ensureMainBranchFromCurrentState_def ensureMain_try_def q
    using t by (simp add: say_def)
qed

theorem ensureMain_on_main_changes_nothing_witness:
  "ensureMainBranchFromCurrentState git (OptStr ''latest'') ''version''
      \<lparr>world = clone_on_main, ran = [], console = []\<rparr>
   = \<lparr>world = clone_on_main, ran = [SymbolicRefHead],
      console = [(Log, ''Main branch setup complete'')]\<rparr>"
  using ensureMain_on_main_changes_nothing
    [of "\<lparr>world = clone_on_main, ran = [], console = []\<rparr>" "OptStr ''latest''" "''version''"]
  by (simp add: clone_on_main_def template_world_def)

lemma run_world:
  "run g c q = (case g c (world q) of
                  (Inl e, w') \<Rightarrow> (Inl e, q\<lparr>world := w', ran := ran q @ [c]\<rparr>)
                | (Inr out, w') \<Rightarrow> (Inr (), q\<lparr>world := w', ran := ran q @ [c]\<rparr>))"
  by (simp add: run_def execSync_def split: prod.splits sum.splits)

lemma git_create_existing:
  assumes "in_clone w" and "n \<in> dom (branches w)"
  shows "create_and_switch n w = (Inl ''fatal: a branch with that name already exists'', w)"
  using assms by (simp add: create_and_switch_def)

lemma git_create_new:
  assumes "in_clone w" and "n \<notin> dom (branches w)"
  shows "create_and_switch n w
           = (Inr [], w\<lparr>branches := (branches w)(n \<mapsto> head_rev w), cur_branch := Some n\<rparr>)"
  using assms by (simp add: create_and_switch_def)

lemma git_switch_create: "git (SwitchCreate n) w =
   (if has_switch w then create_and_switch n w else (Inl ''git: switch is not a git command'', w))"
  by (simp add: git_def)

lemma git_checkout_create: "git (CheckoutCreate n) w = create_and_switch n w"
  by (simp add: git_def)

lemma git_rev_parse: "in_clone w \<Longrightarrow> git RevParseHead w = (Inr (head_rev w @ [nl]), w)"
  by (simp add: git_def)

lemma git_branch_existing:
  "in_clone w \<Longrightarrow> n \<in> dom (branches w) \<Longrightarrow>
   git (Branch n start) w = (Inl ''fatal: a branch with that name already exists'', w)"
  by (simp add: git_def)

lemma git_symbolic_ref:
  "in_clone w \<Longrightarrow> git SymbolicRefHead w
     = (Inr ((case cur_branch w of None \<Rightarrow> [] | Some b \<Rightarrow> b) @ [nl]), w)"
  by (simp add: git_def split: option.splits)

lemma ensureMain_detached:
  assumes "g SymbolicRefHead (world p) = (Inr out, w0)" and "js_trim out = []"
  shows "ensureMainBranchFromCurrentState g tgt kind p =
    (case createMainBranchFromCurrent g
            (say Log (''Creating main branch from current state ('' @ or_latest tgt @ '')...'')
               (p\<lparr>world := w0, ran := ran p @ [SymbolicRefHead]\<rparr>)) of
       (Inr u, p2) \<Rightarrow> say Log ''Main branch setup complete'' p2
     | (Inl e, p2) \<Rightarrow> say Log ''Continuing with current git state...''
                         (say Warn (''Branch setup warning: '' @ e) p2))"
proof -
  have q: "execSync g SymbolicRefHead p
             = (Inr out, p\<lparr>world := w0, ran := ran p @ [SymbolicRefHead]\<rparr>)"
    using assms(1) by (simp add: execSync_def)
  show ?thesis
    unfolding ensureMainBranchFromCurrentState_def ensureMain_try_def q
    using assms(2) by (simp add: Let_def split: prod.splits sum.splits)
qed

lemma createMain_unrolled:
  "createMainBranchFromCurrent g q =
     (let a = run g (SwitchCreate ''main'') q;
          b = run g (CheckoutCreate ''main'') (snd a);
          c = manual_branch g (snd b)
      in if \<not> isl (fst a) then (Inr (), snd a)
         else if \<not> isl (fst b) then (Inr (), snd b)
         else c)"
  by (auto simp: createMainBranchFromCurrent_def strategies_def Let_def
           split: prod.splits sum.splits)

text \<open>
  C8. In a detached state (the query for the current branch prints nothing) the branch
  normaliser runs \<^verbatim>\<open>git switch -c main\<close> first and stops there when it succeeds. When
  it fails it runs \<^verbatim>\<open>git checkout -b main\<close>, in the world the failure left, and stops
  there when that succeeds. When that fails too it reads the current revision id with
  \<^verbatim>\<open>git rev-parse HEAD\<close>, creates \<open>main\<close> at that id with \<^verbatim>\<open>git branch\<close> and
  checks \<open>main\<close> out, each step only after the one before succeeded. After the first
  strategy that succeeds nothing more runs and completion is logged. When the third
  strategy fails at any of its steps, the error of that step is logged as a warning with
  the note that the run continues. In every case the function returns the state: the
  world the last command left, the commands in the order they ran, and the console.
\<close>

theorem detached_ladder:
  assumes "g SymbolicRefHead (world p) = (Inr out, w0)" and "js_trim out = []"
  shows "ensureMainBranchFromCurrentState g tgt kind p =
    (let after = (\<lambda>w cmds lines.
           p\<lparr>world := w, ran := ran p @ SymbolicRefHead # cmds,
             console := console p
               @ (Log, ''Creating main branch from current state ('' @ or_latest tgt @ '')...'')
               # lines\<rparr>);
         complete = (\<lambda>w cmds. after w cmds [(Log, ''Main branch setup complete'')]);
         gave_up = (\<lambda>e w cmds. after w cmds
                      [(Warn, ''Branch setup warning: '' @ e),
                       (Log, ''Continuing with current git state...'')])
     in case g (SwitchCreate ''main'') w0 of
          (Inr o1, w1) \<Rightarrow> complete w1 [SwitchCreate ''main'']
        | (Inl e1, w1) \<Rightarrow>
            (case g (CheckoutCreate ''main'') w1 of
               (Inr o2, w2) \<Rightarrow> complete w2 [SwitchCreate ''main'', CheckoutCreate ''main'']
             | (Inl e2, w2) \<Rightarrow>
                 (case g RevParseHead w2 of
                    (Inl e3, w3) \<Rightarrow>
                      gave_up e3 w3 [SwitchCreate ''main'', CheckoutCreate ''main'', RevParseHead]
                  | (Inr rev_out, w3) \<Rightarrow>
                      (case g (Branch ''main'' (js_trim rev_out)) w3 of
                         (Inl e4, w4) \<Rightarrow>
                           gave_up e4 w4
                             [SwitchCreate ''main'', CheckoutCreate ''main'', RevParseHead,
                              Branch ''main'' (js_trim rev_out)]
                       | (Inr o4, w4) \<Rightarrow>
                           (case g (Checkout ''main'') w4 of
                              (Inl e5, w5) \<Rightarrow>
                                gave_up e5 w5
                                  [SwitchCreate ''main'', CheckoutCreate ''main'', RevParseHead,
                                   Branch ''main'' (js_trim rev_out), Checkout ''main'']
                            | (Inr o5, w5) \<Rightarrow>
                                complete w5
                                  [SwitchCreate ''main'', CheckoutCreate ''main'', RevParseHead,
                                   Branch ''main'' (js_trim rev_out), Checkout ''main''])))))"
proof -
  note start = ensureMain_detached[where g = g and p = p and tgt = tgt and kind = kind, OF assms]
  note defs = Let_def run_world manual_branch_def execSync_def say_def
  obtain r1 w1 where g1: "g (SwitchCreate ''main'') w0 = (r1, w1)"
    by (cases "g (SwitchCreate ''main'') w0")
  obtain r2 w2 where g2: "g (CheckoutCreate ''main'') w1 = (r2, w2)"
    by (cases "g (CheckoutCreate ''main'') w1")
  obtain r3 w3 where g3: "g RevParseHead w2 = (r3, w3)"
    by (cases "g RevParseHead w2")
  show ?thesis
  proof (cases r1)
    case (Inr o1)
    then show ?thesis
      unfolding start createMain_unrolled using g1 by (simp add: defs)
  next
    case f1: (Inl e1)
    show ?thesis
    proof (cases r2)
      case (Inr o2)
      then show ?thesis
        unfolding start createMain_unrolled using g1 f1 g2 by (simp add: defs)
    next
      case f2: (Inl e2)
      show ?thesis
      proof (cases r3)
        case (Inl e3)
        then show ?thesis
          unfolding start createMain_unrolled using g1 f1 g2 f2 g3 by (simp add: defs)
      next
        case s3: (Inr rev_out)
        obtain r4 w4 where g4: "g (Branch ''main'' (js_trim rev_out)) w3 = (r4, w4)"
          by (cases "g (Branch ''main'' (js_trim rev_out)) w3")
        obtain r5 w5 where g5: "g (Checkout ''main'') w4 = (r5, w5)"
          by (cases "g (Checkout ''main'') w4")
        show ?thesis
        proof (cases r4)
          case (Inl e4)
          then show ?thesis
            unfolding start createMain_unrolled using g1 f1 g2 f2 g3 s3 g4 by (simp add: defs)
        next
          case s4: (Inr o4)
          show ?thesis
          proof (cases r5)
            case (Inl e5)
            then show ?thesis
              unfolding start createMain_unrolled using g1 f1 g2 f2 g3 s3 g4 s4 g5
              by (simp add: defs)
          next
            case (Inr o5)
            then show ?thesis
              unfolding start createMain_unrolled using g1 f1 g2 f2 g3 s3 g4 s4 g5
              by (simp add: defs)
          qed
        qed
      qed
    qed
  qed
qed

theorem detached_ladder_witness:
  "ensureMainBranchFromCurrentState git (OptStr ''v1.0.0'') ''tag''
      \<lparr>world = legacy_detached, ran = [], console = []\<rparr>
   = \<lparr>world = legacy_detached\<lparr>branches := [''master'' \<mapsto> rev_b, ''main'' \<mapsto> rev_a],
                cur_branch := Some ''main''\<rparr>,
      ran = [SymbolicRefHead, SwitchCreate ''main'', CheckoutCreate ''main''],
      console = [(Log, ''Creating main branch from current state (v1.0.0)...''),
                 (Log, ''Main branch setup complete'')]\<rparr>
   \<and> ensureMainBranchFromCurrentState git (OptStr ''v1.0.0'') ''tag''
      \<lparr>world = clone_at_tag, ran = [], console = []\<rparr>
   = \<lparr>world = clone_at_tag,
      ran = [SymbolicRefHead, SwitchCreate ''main'', CheckoutCreate ''main'', RevParseHead,
             Branch ''main'' rev_a],
      console = [(Log, ''Creating main branch from current state (v1.0.0)...''),
                 (Warn, ''Branch setup warning: fatal: a branch with that name already exists''),
                 (Log, ''Continuing with current git state...'')]\<rparr>
   \<and> ensureMainBranchFromCurrentState two_step_only (OptStr ''v1.0.0'') ''tag''
      \<lparr>world = (), ran = [], console = []\<rparr>
   = \<lparr>world = (),
      ran = [SymbolicRefHead, SwitchCreate ''main'', CheckoutCreate ''main'', RevParseHead,
             Branch ''main'' rev_a, Checkout ''main''],
      console = [(Log, ''Creating main branch from current state (v1.0.0)...''),
                 (Log, ''Main branch setup complete'')]\<rparr>"
proof -
  have t: "js_trim [nl] = []" by (simp add: js_trim_def is_space_def nl_def)
  have r: "js_trim (rev_a @ [nl]) = rev_a" using no_space_revs(1) by (rule js_trim_line)
  have l: "in_clone legacy_detached" "cur_branch legacy_detached = None"
    "\<not> has_switch legacy_detached" "branches legacy_detached = [''master'' \<mapsto> rev_b]"
    "head_rev legacy_detached = rev_a"
    by (simp_all add: legacy_detached_def clone_on_main_def template_world_def)
  have c: "in_clone clone_at_tag" "cur_branch clone_at_tag = None" "has_switch clone_at_tag"
    "branches clone_at_tag = [''main'' \<mapsto> rev_b]" "head_rev clone_at_tag = rev_a"
    by (simp_all add: clone_at_tag_def clone_on_main_def template_world_def)
  have s1: "git SymbolicRefHead (world \<lparr>world = legacy_detached, ran = [], console = []\<rparr>)
              = (Inr [nl], legacy_detached)"
    using l by (simp add: git_symbolic_ref)
  have s2: "git SymbolicRefHead (world \<lparr>world = clone_at_tag, ran = [], console = []\<rparr>)
              = (Inr [nl], clone_at_tag)"
    using c by (simp add: git_symbolic_ref)
  have s3: "two_step_only SymbolicRefHead (world \<lparr>world = (), ran = [], console = []\<rparr>)
              = (Inr [nl], ())"
    by (simp add: two_step_only_def)
  have 1: "ensureMainBranchFromCurrentState git (OptStr ''v1.0.0'') ''tag''
      \<lparr>world = legacy_detached, ran = [], console = []\<rparr>
   = \<lparr>world = legacy_detached\<lparr>branches := [''master'' \<mapsto> rev_b, ''main'' \<mapsto> rev_a],
                cur_branch := Some ''main''\<rparr>,
      ran = [SymbolicRefHead, SwitchCreate ''main'', CheckoutCreate ''main''],
      console = [(Log, ''Creating main branch from current state (v1.0.0)...''),
                 (Log, ''Main branch setup complete'')]\<rparr>"
    unfolding detached_ladder[where g = git and tgt = "OptStr ''v1.0.0''" and kind = "''tag''", OF s1 t]
    using l
    by (simp add: Let_def git_switch_create git_checkout_create git_create_new or_latest_def
          truthy_def str_of_def)
  have 2: "ensureMainBranchFromCurrentState git (OptStr ''v1.0.0'') ''tag''
      \<lparr>world = clone_at_tag, ran = [], console = []\<rparr>
   = \<lparr>world = clone_at_tag,
      ran = [SymbolicRefHead, SwitchCreate ''main'', CheckoutCreate ''main'', RevParseHead,
             Branch ''main'' rev_a],
      console = [(Log, ''Creating main branch from current state (v1.0.0)...''),
                 (Warn, ''Branch setup warning: fatal: a branch with that name already exists''),
                 (Log, ''Continuing with current git state...'')]\<rparr>"
    unfolding detached_ladder[where g = git and tgt = "OptStr ''v1.0.0''" and kind = "''tag''", OF s2 t]
    using c r
    by (simp add: Let_def git_switch_create git_checkout_create git_create_existing
          git_rev_parse git_branch_existing or_latest_def truthy_def str_of_def)
  have 3: "ensureMainBranchFromCurrentState two_step_only (OptStr ''v1.0.0'') ''tag''
      \<lparr>world = (), ran = [], console = []\<rparr>
   = \<lparr>world = (),
      ran = [SymbolicRefHead, SwitchCreate ''main'', CheckoutCreate ''main'', RevParseHead,
             Branch ''main'' rev_a, Checkout ''main''],
      console = [(Log, ''Creating main branch from current state (v1.0.0)...''),
                 (Log, ''Main branch setup complete'')]\<rparr>"
    unfolding detached_ladder[where g = two_step_only and tgt = "OptStr ''v1.0.0''"
                and kind = "''tag''", OF s3 t]
    using r
    by (simp add: Let_def two_step_only_def or_latest_def truthy_def str_of_def)
  from 1 2 3 show ?thesis by (intro conjI)
qed

text \<open>
  C9. On a branch other than \<open>main\<close> the branch normaliser first runs
  \<^verbatim>\<open>git checkout -b main\<close>. When no branch \<open>main\<close> exists that is all it runs. When one
  exists the command fails, and it reads the current revision, force-moves \<open>main\<close> to
  it and checks \<open>main\<close> out. Either way the clone ends on \<open>main\<close>, \<open>main\<close> points at
  the revision that was current, wherever it pointed before, and nothing else changed.
\<close>

theorem other_branch_moves_main:
  assumes "world p = w" and "in_clone w" and "cur_branch w = Some b" and "b \<noteq> ''main''"
    and "no_space b" and "no_space (head_rev w)" and "head_rev w \<in> set (all_commits w)"
  shows "world (ensureMainBranchFromCurrentState git tgt kind p)
           = w\<lparr>cur_branch := Some ''main'', branches := (branches w)(''main'' \<mapsto> head_rev w)\<rparr>
         \<and> ran (ensureMainBranchFromCurrentState git tgt kind p)
           = ran p @ (if ''main'' \<in> dom (branches w)
                      then [SymbolicRefHead, CheckoutCreate ''main'', RevParseHead,
                            BranchForce ''main'' (head_rev w), Checkout ''main'']
                      else [SymbolicRefHead, CheckoutCreate ''main''])"
proof -
  have tb: "js_trim (b @ [nl]) = b" using assms(5) by (rule js_trim_line)
  have tr: "js_trim (head_rev w @ [nl]) = head_rev w" using assms(6) by (rule js_trim_line)
  have bne: "b \<noteq> []" using assms(5) by (simp add: no_space_def)
  have q: "execSync git SymbolicRefHead p
             = (Inr (b @ [nl]), p\<lparr>ran := ran p @ [SymbolicRefHead]\<rparr>)"
    using assms(1-3) by (simp add: execSync_def git_def)
  show ?thesis
  proof (cases "''main'' \<in> dom (branches w)")
    case False
    then show ?thesis
      unfolding ensureMainBranchFromCurrentState_def ensureMain_try_def q
      using assms(1-4) tb bne
      by (simp add: say_def run_def execSync_def git_def create_and_switch_def)
  next
    case True
    then show ?thesis
      unfolding ensureMainBranchFromCurrentState_def ensureMain_try_def q
      using assms(1-4) tb bne tr assms(7)
      by (auto simp add: say_def run_def execSync_def git_def create_and_switch_def
             checkout_name_def resolve_commit_def all_commits_def)
  qed
qed

theorem other_branch_moves_main_witness:
  "world (ensureMainBranchFromCurrentState git (OptStr ''develop'') ''tag''
            \<lparr>world = clone_on_develop, ran = [], console = []\<rparr>)
     = clone_on_develop\<lparr>cur_branch := Some ''main'',
         branches := [''main'' \<mapsto> rev_a, ''develop'' \<mapsto> rev_a]\<rparr>
   \<and> ran (ensureMainBranchFromCurrentState git (OptStr ''develop'') ''tag''
            \<lparr>world = clone_on_develop, ran = [], console = []\<rparr>)
     = [SymbolicRefHead, CheckoutCreate ''main'', RevParseHead,
        BranchForce ''main'' rev_a, Checkout ''main'']"
proof -
  have "no_space ''develop''" by (simp add: no_space_def is_space_def)
  then show ?thesis
    using other_branch_moves_main
      [of "\<lparr>world = clone_on_develop, ran = [], console = []\<rparr>" clone_on_develop
          "''develop''" "OptStr ''develop''" "''tag''"] no_space_revs(1)
    by (simp add: clone_on_develop_def clone_on_main_def template_world_def all_commits_def
          fun_upd_twist)
qed

section \<open>The installed version in the manifest\<close>

lemma installed_version_git:
  assumes "in_clone (world p)" and "no_space (head_rev (world p))"
  shows "fst (installed_version git opts p) =
           (if truthy (hash opts) then str_of (hash opts)
            else if truthy (tag opts) then str_of (tag opts)
            else if truthy (version opts) \<and> version opts \<noteq> OptStr ''latest''
              then str_of (version opts)
            else take 7 (head_rev (world p)))"
  using assms js_trim_line[of "head_rev (world p)"]
  by (simp add: installed_version_def execSync_def git_def)

lemma manifest_gets_template:
  assumes "scripts_usable (get_prop pkg ''scripts'')"
  shows "\<exists>pkg'. fst (updatePackageJson g now (Some (Json (Obj pkg))) name opts p)
                   = Inr (Some (Json (Obj pkg')))
     \<and> get_prop pkg' ''aetherCMS''
         = json_of (original_template pkg (fst (installed_version g opts p)) now opts)"
proof -
  obtain iv p1 where iv: "installed_version g opts p = (iv, p1)"
    by (cases "installed_version g opts p")
  define pkg4 where "pkg4 = set_prop ''aetherCMS'' (original_template pkg iv now opts)
     (set_prop ''private'' (Boolean True)
       (set_prop ''version'' (Str ''0.1.0'') (set_prop ''name'' (of_opt name) pkg)))"
  have sc: "get_prop pkg4 ''scripts'' = get_prop pkg ''scripts''"
    by (simp add: pkg4_def get_prop_set_prop)
  have ae: "get_prop (set_prop ''scripts'' v pkg4) ''aetherCMS''
              = original_template pkg iv now opts" for v
    by (simp add: pkg4_def get_prop_set_prop)
  have ne: "original_template pkg iv now opts \<noteq> Undefined"
    by (simp add: original_template_def)
  have w: "get_prop (filter (\<lambda>kv. snd kv \<noteq> Undefined)
                      (map (map_prod id json_of) (set_prop ''scripts'' v pkg4))) ''aetherCMS''
      = json_of (original_template pkg iv now opts)" for v
    using get_prop_written[of "set_prop ''scripts'' v pkg4" "''aetherCMS''"] ae ne by simp
  show ?thesis
    using assms w
    unfolding updatePackageJson_def iv
    by (cases "get_prop pkg ''scripts''")
       (auto simp: Let_def sc pkg4_def[symmetric] scripts_usable_def)
qed

lemma written_template:
  "\<exists>meta. json_of (original_template pkg iv now opts) = Obj meta
     \<and> get_prop meta ''installedVersion'' = Str iv
     \<and> get_prop meta ''installOptions''
         = Obj (filter (\<lambda>kv. snd kv \<noteq> Undefined)
                  [(''version'', of_opt (version opts)), (''tag'', of_opt (tag opts)),
                   (''hash'', of_opt (hash opts))])"
proof -
  let ?props = "[(''templateName'', get_prop pkg ''name''),
          (''templateVersion'', get_prop pkg ''version''),
          (''templateRepository'', get_prop pkg ''repository''),
          (''installedVersion'', Str iv),
          (''installedAt'', Str now),
          (''installedFrom'', Str ''create-aether-cms''),
          (''installOptions'',
             Obj [(''version'', of_opt (version opts)),
                  (''tag'', of_opt (tag opts)),
                  (''hash'', of_opt (hash opts))])]"
  let ?meta = "filter (\<lambda>kv. snd kv \<noteq> Undefined) (map (map_prod id json_of) ?props)"
  have m: "json_of (original_template pkg iv now opts) = Obj ?meta"
    by (simp only: original_template_def json_of.simps)
  have v: "get_prop ?props ''installedVersion'' = Str iv"
    by (simp add: get_prop_def)
  have o: "get_prop ?props ''installOptions''
             = Obj [(''version'', of_opt (version opts)), (''tag'', of_opt (tag opts)),
                    (''hash'', of_opt (hash opts))]"
    by (simp add: get_prop_def)
  have same: "json_of (of_opt x) = of_opt x" for x
    by (cases x) (simp_all add: of_opt_def)
  have "get_prop ?meta ''installedVersion'' = Str iv"
    using get_prop_written[of ?props "''installedVersion''"] v by simp
  moreover have "get_prop ?meta ''installOptions''
      = Obj (filter (\<lambda>kv. snd kv \<noteq> Undefined)
               [(''version'', of_opt (version opts)), (''tag'', of_opt (tag opts)),
                (''hash'', of_opt (hash opts))])"
    using get_prop_written[of ?props "''installOptions''"] o by (simp add: same)
  ultimately show ?thesis using m by blast
qed

text \<open>
  C5. In the clone, on a manifest that is a JSON object (with a scripts entry that is
  absent or falsy, an object or an array), \<^verbatim>\<open>updatePackageJson\<close> returns a manifest whose \<open>aetherCMS\<close>
  entry holds as \<open>installedVersion\<close>: the hash if one was given; else the tag if one
  was given; else the version if one was given and is not "latest"; else the first seven
  characters of the current revision id. Beside it, \<open>installOptions\<close> holds the
  version, tag and hash options as they were given: the string, or null for an option
  that was not given; an option whose value is undefined has no entry in the file, which
  is how \<^verbatim>\<open>JSON.stringify\<close> writes an undefined property.
\<close>

theorem updatePackageJson_installed_version:
  assumes "in_clone (world p)" and "no_space (head_rev (world p))"
    and "scripts_usable (get_prop pkg ''scripts'')"
  shows "\<exists>pkg' meta.
           fst (updatePackageJson git now (Some (Json (Obj pkg))) name opts p)
             = Inr (Some (Json (Obj pkg')))
         \<and> get_prop pkg' ''aetherCMS'' = Obj meta
         \<and> get_prop meta ''installedVersion''
             = Str (if truthy (hash opts) then str_of (hash opts)
                    else if truthy (tag opts) then str_of (tag opts)
                    else if truthy (version opts) \<and> version opts \<noteq> OptStr ''latest''
                      then str_of (version opts)
                    else take 7 (head_rev (world p)))
         \<and> get_prop meta ''installOptions''
             = Obj (filter (\<lambda>kv. snd kv \<noteq> Undefined)
                      [(''version'', of_opt (version opts)), (''tag'', of_opt (tag opts)),
                       (''hash'', of_opt (hash opts))])"
proof -
  obtain pkg' where a: "fst (updatePackageJson git now (Some (Json (Obj pkg))) name opts p)
                          = Inr (Some (Json (Obj pkg')))"
    and b: "get_prop pkg' ''aetherCMS''
              = json_of (original_template pkg (fst (installed_version git opts p)) now opts)"
    using manifest_gets_template[OF assms(3)] by blast
  obtain meta where c: "json_of (original_template pkg (fst (installed_version git opts p)) now opts)
                          = Obj meta"
    and d: "get_prop meta ''installedVersion'' = Str (fst (installed_version git opts p))"
    and e: "get_prop meta ''installOptions''
              = Obj (filter (\<lambda>kv. snd kv \<noteq> Undefined)
                       [(''version'', of_opt (version opts)), (''tag'', of_opt (tag opts)),
                        (''hash'', of_opt (hash opts))])"
    using written_template by blast
  show ?thesis
    using a b c d e installed_version_git[OF assms(1,2), of opts] by auto
qed

theorem updatePackageJson_installed_version_witness:
  "(\<exists>pkg' meta.
      fst (updatePackageJson git ''2025-06-01T10:00:00.000Z'' (Some (Json (Obj template_manifest)))
             (OptStr ''my-blog'') opts_tag \<lparr>world = clone_at_tag, ran = [], console = []\<rparr>)
        = Inr (Some (Json (Obj pkg')))
    \<and> get_prop pkg' ''aetherCMS'' = Obj meta
    \<and> get_prop meta ''installedVersion'' = Str ''v1.0.0''
    \<and> get_prop meta ''installOptions''
        = Obj [(''version'', Str ''latest''), (''tag'', Str ''v1.0.0''), (''hash'', Null)])
   \<and> (\<exists>pkg' meta.
      fst (updatePackageJson git ''2025-06-01T10:00:00.000Z'' (Some (Json (Obj template_manifest)))
             (OptStr ''my-blog'') opts_valueless \<lparr>world = clone_on_main, ran = [], console = []\<rparr>)
        = Inr (Some (Json (Obj pkg')))
    \<and> get_prop pkg' ''aetherCMS'' = Obj meta
    \<and> get_prop meta ''installedVersion'' = Str ''9e8d7c6''
    \<and> get_prop meta ''installOptions'' = Obj [(''tag'', Null), (''hash'', Null)])"
proof -
  have su: "scripts_usable (get_prop template_manifest ''scripts'')"
    by (simp add: template_manifest_def scripts_usable_def get_prop_def)
  have c: "in_clone (world \<lparr>world = clone_on_main, ran = [], console = []\<rparr>)"
    "no_space (head_rev (world \<lparr>world = clone_on_main, ran = [], console = []\<rparr>))"
    "head_rev clone_on_main = rev_b"
    using no_space_revs(2) by (simp_all add: clone_on_main_def template_world_def)
  have t: "in_clone (world \<lparr>world = clone_at_tag, ran = [], console = []\<rparr>)"
    "no_space (head_rev (world \<lparr>world = clone_at_tag, ran = [], console = []\<rparr>))"
    using no_space_revs(1) by (simp_all add: clone_at_tag_def clone_on_main_def template_world_def)
  have 1: "\<exists>pkg' meta.
      fst (updatePackageJson git ''2025-06-01T10:00:00.000Z'' (Some (Json (Obj template_manifest)))
             (OptStr ''my-blog'') opts_tag \<lparr>world = clone_at_tag, ran = [], console = []\<rparr>)
        = Inr (Some (Json (Obj pkg')))
    \<and> get_prop pkg' ''aetherCMS'' = Obj meta
    \<and> get_prop meta ''installedVersion'' = Str ''v1.0.0''
    \<and> get_prop meta ''installOptions''
        = Obj [(''version'', Str ''latest''), (''tag'', Str ''v1.0.0''), (''hash'', Null)]"
    using updatePackageJson_installed_version[OF t su,
            of "''2025-06-01T10:00:00.000Z''" "OptStr ''my-blog''" opts_tag]
    by (simp add: opts_tag_def truthy_def str_of_def of_opt_def)
  have 2: "\<exists>pkg' meta.
      fst (updatePackageJson git ''2025-06-01T10:00:00.000Z'' (Some (Json (Obj template_manifest)))
             (OptStr ''my-blog'') opts_valueless \<lparr>world = clone_on_main, ran = [], console = []\<rparr>)
        = Inr (Some (Json (Obj pkg')))
    \<and> get_prop pkg' ''aetherCMS'' = Obj meta
    \<and> get_prop meta ''installedVersion'' = Str ''9e8d7c6''
    \<and> get_prop meta ''installOptions'' = Obj [(''tag'', Null), (''hash'', Null)]"
    using updatePackageJson_installed_version[OF c(1,2) su,
            of "''2025-06-01T10:00:00.000Z''" "OptStr ''my-blog''" opts_valueless]
    by (simp add: opts_valueless_def truthy_def str_of_def of_opt_def c(3) rev_b_def)
  from 1 2 show ?thesis by (intro conjI)
qed

section \<open>The state a run ends in\<close>

text \<open>
  From a detached state with no local branch \<open>main\<close>, the normaliser ends on a new
  branch \<open>main\<close> at the current revision.
\<close>

lemma detached_without_main:
  assumes "world p = w" and "in_clone w" and "cur_branch w = None"
    and "''main'' \<notin> dom (branches w)"
  shows "world (ensureMainBranchFromCurrentState git tgt kind p)
           = w\<lparr>cur_branch := Some ''main'', branches := (branches w)(''main'' \<mapsto> head_rev w)\<rparr>"
proof -
  have t: "js_trim [nl] = []" by (simp add: js_trim_def is_space_def nl_def)
  have s: "git SymbolicRefHead (world p) = (Inr [nl], w)"
    using assms(1-3) by (simp add: git_symbolic_ref)
  let ?start = "say Log (''Creating main branch from current state ('' @ or_latest tgt @ '')...'')
               (p\<lparr>world := w, ran := ran p @ [SymbolicRefHead]\<rparr>)"
  have i: "in_clone (world ?start)" "''main'' \<notin> dom (branches (world ?start))" "world ?start = w"
    using assms by (simp_all add: say_def)
  have "\<exists>q'. createMainBranchFromCurrent git ?start = (Inr (), q')
      \<and> world q' = w\<lparr>cur_branch := Some ''main'', branches := (branches w)(''main'' \<mapsto> head_rev w)\<rparr>"
  proof (cases "has_switch w")
    case True
    have "run git (SwitchCreate ''main'') ?start
            = (Inr (), ?start\<lparr>world := w\<lparr>branches := (branches w)(''main'' \<mapsto> head_rev w),
                                            cur_branch := Some ''main''\<rparr>,
                               ran := ran ?start @ [SwitchCreate ''main'']\<rparr>)"
      using i True by (simp add: run_world git_switch_create git_create_new)
    then show ?thesis by (simp add: createMain_unrolled Let_def)
  next
    case False
    have a: "run git (SwitchCreate ''main'') ?start
            = (Inl ''git: switch is not a git command'', ?start\<lparr>ran := ran ?start @ [SwitchCreate ''main'']\<rparr>)"
      using i False by (simp add: run_world git_switch_create)
    have "run git (CheckoutCreate ''main'') (?start\<lparr>ran := ran ?start @ [SwitchCreate ''main'']\<rparr>)
            = (Inr (), ?start\<lparr>world := w\<lparr>branches := (branches w)(''main'' \<mapsto> head_rev w),
                                            cur_branch := Some ''main''\<rparr>,
                               ran := ran ?start @ [SwitchCreate ''main'', CheckoutCreate ''main'']\<rparr>)"
      using i False by (simp add: run_world git_checkout_create git_create_new)
    with a show ?thesis by (simp add: createMain_unrolled Let_def)
  qed
  then obtain q' where c: "createMainBranchFromCurrent git ?start = (Inr (), q')"
    and w: "world q' = w\<lparr>cur_branch := Some ''main'', branches := (branches w)(''main'' \<mapsto> head_rev w)\<rparr>"
    by blast
  show ?thesis
    unfolding ensureMain_detached[where g = git and p = p and tgt = tgt and kind = kind, OF s t] c using w by (simp add: say_def)
qed


lemma createMain_with_main:
  assumes "in_clone (world q)" and "''main'' \<in> dom (branches (world q))"
  shows "\<exists>q'. createMainBranchFromCurrent git q
                 = (Inl ''fatal: a branch with that name already exists'', q')
              \<and> world q' = world q \<and> console q' = console q"
proof -
  obtain e qa where a: "run git (SwitchCreate ''main'') q = (Inl e, qa)" and wa: "world qa = world q"
    and ca: "console qa = console q"
    using assms by (cases "has_switch (world q)")
      (simp_all add: run_world git_switch_create git_create_existing)
  have b: "run git (CheckoutCreate ''main'') qa
             = (Inl ''fatal: a branch with that name already exists'', qa\<lparr>ran := ran qa @ [CheckoutCreate ''main'']\<rparr>)"
    using assms wa by (simp add: run_world git_checkout_create git_create_existing)
  let ?qb = "qa\<lparr>ran := ran qa @ [CheckoutCreate ''main'']\<rparr>"
  have wb: "world ?qb = world q" "console ?qb = console q" using wa ca by simp_all
  have c: "\<exists>q'. manual_branch git ?qb = (Inl ''fatal: a branch with that name already exists'', q')
             \<and> world q' = world q \<and> console q' = console q"
    using assms wb
    by (simp add: manual_branch_def execSync_def git_rev_parse run_world git_branch_existing)
  show ?thesis
    using a b c by (simp add: createMain_unrolled Let_def)
qed

text \<open>
  From a detached state in a clone that has a local branch \<open>main\<close>, each of the three
  strategies fails on the existing branch: the repository is left as it was, detached,
  and the failure is a warning.
\<close>

lemma detached_with_main:
  assumes "world p = w" and "in_clone w" and "cur_branch w = None"
    and "''main'' \<in> dom (branches w)"
  shows "world (ensureMainBranchFromCurrentState git tgt kind p) = w
       \<and> console (ensureMainBranchFromCurrentState git tgt kind p)
           = console p @
             [(Log, ''Creating main branch from current state ('' @ or_latest tgt @ '')...''),
              (Warn, ''Branch setup warning: fatal: a branch with that name already exists''),
              (Log, ''Continuing with current git state...'')]"
proof -
  have t: "js_trim [nl] = []" by (simp add: js_trim_def is_space_def nl_def)
  have s: "git SymbolicRefHead (world p) = (Inr [nl], w)"
    using assms(1-3) by (simp add: git_symbolic_ref)
  let ?start = "say Log (''Creating main branch from current state ('' @ or_latest tgt @ '')...'')
               (p\<lparr>world := w, ran := ran p @ [SymbolicRefHead]\<rparr>)"
  have "in_clone (world ?start)" "''main'' \<in> dom (branches (world ?start))"
    using assms by (simp_all add: say_def)
  from createMain_with_main[OF this] obtain q' where
    c: "createMainBranchFromCurrent git ?start
          = (Inl ''fatal: a branch with that name already exists'', q')"
    and w: "world q' = world ?start" and k: "console q' = console ?start" by blast
  show ?thesis
    unfolding ensureMain_detached[where g = git and p = p and tgt = tgt and kind = kind, OF s t] c
    using w k by (simp add: say_def)
qed

text \<open>In a clone whose only remote is \<open>origin\<close>, the remote is renamed to \<open>upstream\<close>.\<close>

lemma configure_upstream_renames:
  assumes "world p = w" and "in_clone w" and "remotes w = [''origin'' \<mapsto> url]"
  shows "world (configure_upstream git p) = w\<lparr>remotes := [''upstream'' \<mapsto> url]\<rparr>"
  using assms
  by (auto simp add: configure_upstream_def run_def execSync_def git_def say_def)

text \<open>
  C6. The claim: every run that completes ends on the branch \<open>main\<close>, with a remote
  \<open>upstream\<close> at the template and no remote \<open>origin\<close> left at it, also when
  acquisition left the clone detached. Installing the tag \<open>v1.0.0\<close> of a template whose
  default branch is \<open>main\<close> departs from it: the clone has a local \<open>main\<close>, the
  checkout of the tag detaches it, each strategy of the normaliser fails on the existing
  branch, and the run completes detached. The initial commit is made on the detached
  revision; \<open>main\<close> stays at the template's tip. The remotes are as claimed.
\<close>

theorem tag_install_ends_detached:
  "fst (cloneRepository git dest opts_tag fresh_start) = True
   \<and> (let final = world (setupGitRepository git no_thanks dest
                     (snd (cloneRepository git dest opts_tag fresh_start)))
      in cur_branch final = None
         \<and> head_rev final = rev_n
         \<and> branches final ''main'' = Some rev_b
         \<and> remotes final ''upstream'' = Some repoUrl
         \<and> remotes final ''origin'' = None)"
  by (simp add: cloneRepository_def cloneRepository_try_def ensureMainBranchFromCurrentState_def
       ensureMain_try_def createMainBranchFromCurrent_def strategies_def manual_branch_def
       setupGitRepository_def setupGit_try_def configure_upstream_def connect_own_repository_def
       run_def execSync_def say_def git_def checkout_name_def create_and_switch_def
       resolve_commit_def all_commits_def fresh_start_def template_world_def opts_tag_def
       no_thanks_def js_or_def truthy_def str_of_def js_trim_def is_space_def nl_def answered_yes_def
       repoUrl_def rev_a_def rev_b_def rev_n_def rev_t_def or_latest_def dest_def)

end
